theory Spec2Isabelle
  imports Complex_Main "HOL-Library.Word"
begin

section \<open>JavaScript Numbers\<close>

text \<open>
  The balances, divisibilities and amounts of this program are JavaScript Numbers
  (IEEE 754 double precision). A finite Number is modelled by the real number it
  denotes; \<open>NaN\<close>, the infinities and the sign of zero are left out, and with them
  overflow and gradual underflow. The result of an arithmetic operation is the exact
  result rounded to the nearest number with a significand of 53 bits, ties to the even
  significand: \<open>roundDouble\<close>. \<open>exponentOf x\<close> is the exponent \<open>e\<close> with
  \<open>2^52 \<le> x / 2^e < 2^53\<close>, found from the number of binary digits of the whole
  part of \<open>x\<close>, or of \<open>1 / x\<close> when \<open>x\<close> is below one.
\<close>

type_synonym Number = real

fun bitLength :: "nat \<Rightarrow> nat" where
  "bitLength n = (if n = 0 then 0 else Suc (bitLength (n div 2)))"

declare bitLength.simps [simp del]

definition exponentOf :: "Number \<Rightarrow> int" where
  "exponentOf x =
     (let e = (if 1 \<le> x then int (bitLength (nat \<lfloor>x\<rfloor>))
               else 1 - int (bitLength (nat \<lfloor>1 / x\<rfloor>))) - 53
      in if x < 2 powi (e + 53) then e else e + 1)"

definition roundDouble :: "real \<Rightarrow> Number" where
  "roundDouble x =
     (if x = 0 then 0
      else let e = exponentOf \<bar>x\<bar>;
               y = \<bar>x\<bar> * 2 powi (- e);
               m = \<lfloor>y\<rfloor>;
               f = y - of_int m;
               n = (if f < 1 / 2 \<or> (f = 1 / 2 \<and> even m) then m else m + 1)
           in sgn x * of_int n * 2 powi e)"

text \<open>\<open>x * y\<close> on Numbers (\<open>Number::multiply\<close>).\<close>

definition multiply :: "Number \<Rightarrow> Number \<Rightarrow> Number" where
  "multiply x y = roundDouble (x * y)"

section \<open>Node-type catalog (model/NodeInformation.ts)\<close>

datatype NodeMetadataType =
    VotingDual | VotingPeer | VotingApi | HarvestingDual | HarvestingPeer
  | Services | Peer | Api | HarvestingDemo | VotingNonHarvestingPeer

datatype RestProtocol = HttpOnly | HttpsOnly | HttpAndHttps

section \<open>Topology files (model/NetworkFile.ts)\<close>

record NodeTypeInput =
  nickName :: string
  nodeType :: NodeMetadataType
  total :: nat
  balances :: "Number list"
  restProtocol :: "RestProtocol option"

record CurrencyDistribution =
  address :: string
  amount :: Number

record CosignerAccount =
  number :: nat
  publicKey :: string
  balance :: Number
  address :: string

record CosignerPerson =
  number :: nat
  cosignerAccounts :: "CosignerAccount list"

record Multisig =
  ownershipCount :: nat
  cosigners :: "CosignerPerson list"
  minApprovalDelta :: nat
  minRemovalDelta :: nat

text \<open>
  The toolkit's \<open>CustomPreset\<close>, a partial object: every field is optional. Only
  the fields that this program writes or reads are kept. A gateway entry is its
  \<open>openPort\<close> flag and an https proxy entry its \<open>excludeDockerService\<close> flag; a faucet
  entry is its \<open>repeat\<close> count and its \<open>compose.environment\<close>; \<open>transactions\<close> is a
  mapping from transaction keys to payloads, kept in insertion order.
\<close>

record NodePreset =
  friendlyName :: "string option"
  host :: "string option"
  voting :: "bool option"
  harvesting :: "bool option"
  dockerComposeDebugMode :: "bool option"
  brokerDockerComposeDebugMode :: "bool option"
  excludeFromNemesis :: "bool option"

record FaucetPreset =
  repeat :: "nat option"
  environment :: "(string \<times> string option) list"

record MosaicPreset =
  divisibility :: "Number option"
  accounts :: "string list option"
  currencyDistributions :: "CurrencyDistribution list option"

record NemesisPreset =
  nemesisSignerPrivateKey :: "string option"
  mosaics :: "MosaicPreset list option"
  transactions :: "(string \<times> string) list option"

record PeerInfo =
  publicKey :: string
  host :: string
  port :: nat
  name :: string
  roles :: string

record CustomPreset =
  privateKeySecurityMode :: "string option"
  nodes :: "NodePreset list option"
  gateways :: "bool list option"
  httpsProxies :: "bool list option"
  faucets :: "FaucetPreset list option"
  votingKeyDesiredLifetime :: "nat option"
  nemesisGenerationHashSeed :: "string option"
  nemesis :: "NemesisPreset option"
  knownPeers :: "PeerInfo list option"
  knownRestGateways :: "string list option"
  nemesisSeedFolder :: "string option"
  lastKnownNetworkEpoch :: "nat option"
  networkType :: "nat option"
  nemesisSignerPublicKey :: "string option"
  harvestNetworkFeeSinkAddress :: "string option"
  namespaceRentalFeeSinkAddress :: "string option"
  mosaicRentalFeeSinkAddress :: "string option"
  currencyMosaicId :: "string option"
  harvestingMosaicId :: "string option"
  statisticsServiceUrl :: "string option"
  harvestNetworkFeeSinkAddressV1 :: "string option"
  mosaicRentalFeeSinkAddressV1 :: "string option"
  namespaceRentalFeeSinkAddressV1 :: "string option"

definition emptyPreset :: CustomPreset where
  "emptyPreset =
     \<lparr>privateKeySecurityMode = None, nodes = None, gateways = None, httpsProxies = None,
      faucets = None, votingKeyDesiredLifetime = None, nemesisGenerationHashSeed = None,
      nemesis = None, knownPeers = None, knownRestGateways = None, nemesisSeedFolder = None,
      lastKnownNetworkEpoch = None, networkType = None, nemesisSignerPublicKey = None,
      harvestNetworkFeeSinkAddress = None, namespaceRentalFeeSinkAddress = None,
      mosaicRentalFeeSinkAddress = None, currencyMosaicId = None, harvestingMosaicId = None,
      statisticsServiceUrl = None, harvestNetworkFeeSinkAddressV1 = None,
      mosaicRentalFeeSinkAddressV1 = None, namespaceRentalFeeSinkAddressV1 = None\<rparr>"

text \<open>
  \<open>NodeInformation\<close>. The addresses are the toolkit's \<open>NodeAccount\<close> value, which
  the later node update stores and this development never looks into.
\<close>

typedecl NodeAddresses

record NodeInformation =
  number :: nat
  nickName :: string
  friendlyName :: string
  assembly :: string
  hostname :: string
  nodeType :: NodeMetadataType
  restProtocol :: "RestProtocol option"
  balances :: "Number list"
  addresses :: "NodeAddresses option"
  customPreset :: "CustomPreset option"

record BasicNetworkFile =
  preset :: string
  cloneFromPreset :: "string option"
  networkType :: nat
  isNewNetwork :: bool
  nemesisSeedFolder :: "string option"
  faucetBalances :: "Number list option"
  additionalCurrencyDistributions :: "CurrencyDistribution list list option"
  multisig :: "Multisig option"
  domain :: string
  suffix :: string
  friendlyNamePattern :: string
  customNetworkPreset :: "CustomPreset option"

record NetworkFile = BasicNetworkFile +
  nodes :: "NodeInformation list"

record NetworkInputFile = BasicNetworkFile +
  nodeTypes :: "NodeTypeInput list"

text \<open>The variables of the two nested loops of \<open>expandNodes\<close>.\<close>

record ExpandState =
  nodes :: "NodeInformation list"
  nodeCounter :: nat
  counters :: "string \<rightharpoonup> nat"

section \<open>Catalog entries\<close>

text \<open>
  \<open>NodeTypeMetadata\<close>. The optional fields \<open>services\<close> and \<open>assembly\<close> of the
  interface are options here.
\<close>

record NodeTypeMetadata =
  name :: string
  balances :: "Number list"
  api :: bool
  peer :: bool
  harvesting :: bool
  voting :: bool
  demo :: bool
  services :: "bool option"
  nickName :: string
  assembly :: "string option"
  suggestedCount :: nat

text \<open>
  \<open>Assembly.services\<close> is an enum member of the external toolkit; its string
  value there is \<open>services\<close>.
\<close>

definition Assembly_services :: string where
  "Assembly_services = ''services''"

fun nodesMetadata :: "NodeMetadataType \<Rightarrow> NodeTypeMetadata" where
  "nodesMetadata VotingDual =
     \<lparr>name = ''Voting Dual'', balances = [3000000, 150], api = True, peer = True,
      harvesting = True, voting = True, demo = False, services = None,
      nickName = ''dual'', assembly = None, suggestedCount = 3\<rparr>"
| "nodesMetadata VotingPeer =
     \<lparr>name = ''Voting Peer'', balances = [3000000, 150], api = False, peer = True,
      harvesting = True, voting = True, demo = False, services = None,
      nickName = ''beacon'', assembly = None, suggestedCount = 3\<rparr>"
| "nodesMetadata VotingApi =
     \<lparr>name = ''Voting Api'', balances = [3000000, 150], api = False, peer = True,
      harvesting = False, voting = True, demo = False, services = None,
      nickName = ''beacon'', assembly = None, suggestedCount = 3\<rparr>"
| "nodesMetadata HarvestingDual =
     \<lparr>name = ''Harvesting Dual'', balances = [1000000, 150], api = True, peer = True,
      harvesting = True, voting = False, demo = False, services = None,
      nickName = ''dual'', assembly = None, suggestedCount = 3\<rparr>"
| "nodesMetadata HarvestingPeer =
     \<lparr>name = ''Harvesting Peer'', balances = [1000000, 150], api = False, peer = True,
      harvesting = True, voting = False, demo = False, services = None,
      nickName = ''beacon'', assembly = None, suggestedCount = 3\<rparr>"
| "nodesMetadata Services =
     \<lparr>name = ''Services'', balances = [], api = False, peer = False,
      harvesting = False, voting = False, demo = False, services = Some True,
      nickName = ''services'', assembly = Some Assembly_services, suggestedCount = 1\<rparr>"
| "nodesMetadata Peer =
     \<lparr>name = ''Peer'', balances = [1000, 0], api = False, peer = True,
      harvesting = False, voting = False, demo = False, services = None,
      nickName = ''peer'', assembly = None, suggestedCount = 3\<rparr>"
| "nodesMetadata Api =
     \<lparr>name = ''Api'', balances = [1000, 0], api = True, peer = False,
      harvesting = False, voting = False, demo = False, services = None,
      nickName = ''api'', assembly = None, suggestedCount = 3\<rparr>"
| "nodesMetadata HarvestingDemo =
     \<lparr>name = ''Harvesting Demo'', balances = [1000000, 150], api = True, peer = True,
      harvesting = True, voting = False, demo = True, services = None,
      nickName = ''demo'', assembly = Some ''demo'', suggestedCount = 1\<rparr>"
| "nodesMetadata VotingNonHarvestingPeer =
     \<lparr>name = ''Non Harvesting Voting Peer'', balances = [51000000, 0], api = False,
      peer = True, harvesting = False, voting = True, demo = False, services = None,
      nickName = ''peer'', assembly = None, suggestedCount = 3\<rparr>"

text \<open>
  JavaScript truthiness of an optional string (\<open>if (metadata.assembly)\<close>,
  \<open>input.friendlyNamePattern || ...\<close>): \<open>undefined\<close> and the empty string are falsy.
\<close>

fun truthyString :: "string option \<Rightarrow> bool" where
  "truthyString None = False"
| "truthyString (Some s) = (s \<noteq> [])"

text \<open>\<open>NodeMetadataUtils.getAssembly\<close>.\<close>

definition getAssembly :: "NodeTypeMetadata \<Rightarrow> string" where
  "getAssembly metadata =
     (if truthyString (assembly metadata) then the (assembly metadata)
      else if api metadata \<and> peer metadata then ''dual''
      else if api metadata then ''api'' else ''peer'')"

section \<open>Numbers rendered as text\<close>

text \<open>
  \<open>String(num)\<close> for the node numbers, counters and epochs of this program, which
  are non-negative whole numbers: the decimal digits, most significant first.
\<close>

definition digitChar :: "nat \<Rightarrow> char" where
  "digitChar d = ''0123456789'' ! d"

fun String :: "nat \<Rightarrow> string" where
  "String n = (if n < 10 then [digitChar n] else String (n div 10) @ [digitChar (n mod 10)])"

declare String.simps [simp del]

text \<open>\<open>str.padStart(places, '0')\<close>.\<close>

definition padStart :: "string \<Rightarrow> nat \<Rightarrow> char \<Rightarrow> string" where
  "padStart s places c = replicate (places - length s) c @ s"

text \<open>\<open>NetworkUtils.zeroPad\<close>.\<close>

definition zeroPad :: "nat \<Rightarrow> nat \<Rightarrow> string" where
  "zeroPad num places = padStart (String num) places (CHR ''0'')"

section \<open>Key store (services/NetworkConfigurationService.ts)\<close>

type_synonym NetworkType = nat

type_synonym bytes = "8 word list"

datatype NetworkAccountName =
    founder | faucet | nemesisSigner | harvestNetworkFeeSink
  | mosaicRentalFeeSink | namespaceRentalFeeSink

text \<open>The key roles of the external toolkit's \<open>KeyName\<close> enum.\<close>

datatype KeyName =
    Main | Remote | Transport | Voting | VRF | NemesisSigner | NemesisAccount | ServiceProvider

text \<open>
  The SDK's \<open>Account\<close> value, read through its getters \<open>privateKey\<close>, \<open>publicKey\<close>
  and \<open>address.plain()\<close>.
\<close>

record Account =
  privateKey :: string
  publicKey :: string
  address :: string

record StoredAccount =
  privateKey :: string
  publicKey :: string
  address :: string

text \<open>The toolkit's \<open>VotingKeyAccount\<close> and the \<open>VotingKeyFileContent\<close> built on it.\<close>

record VotingKeyAccount =
  publicKey :: string
  startEpoch :: nat
  endEpoch :: nat

record VotingKeyFileContent = VotingKeyAccount +
  privateFileContent :: bytes

text \<open>An entry of \<open>KeyStorage.votingFiles\<close>; the file content is base64 text.\<close>

record StoredVotingFile =
  publicKey :: string
  privateFileContent :: string

record KeyStorage =
  network :: "NetworkAccountName \<rightharpoonup> StoredAccount"
  nodes :: "string \<rightharpoonup> (KeyName \<rightharpoonup> StoredAccount)"
  votingFiles :: "string \<rightharpoonup> StoredVotingFile"

text \<open>
  The operations of the SDK, of the toolkit and of the platform that the key store
  calls. They are not part of this repository and are parameters of the model:
  \<^item> \<open>createFromPrivateKey\<close>: \<open>Account.createFromPrivateKey(privateKey, networkType)\<close>;
  \<^item> \<open>generateNewAccount\<close>: \<open>Account.generateNewAccount(networkType)\<close>; its first
    argument numbers the draws of the random generator (0 for the first account
    generated, 1 for the next), which makes it a function;
  \<^item> \<open>createVotingFile\<close>, \<open>readVotingFile\<close>: the methods of \<open>VotingUtils\<close>;
  \<^item> \<open>toBase64\<close>, \<open>fromBase64\<close>: \<open>Buffer.from(b).toString('base64')\<close> and
    \<open>Buffer.from(s, 'base64')\<close>.
\<close>

record Sdk =
  createFromPrivateKey :: "string \<Rightarrow> NetworkType \<Rightarrow> Account"
  generateNewAccount :: "nat \<Rightarrow> NetworkType \<Rightarrow> Account"
  createVotingFile :: "string \<Rightarrow> nat \<Rightarrow> nat \<Rightarrow> bytes"
  readVotingFile :: "bytes \<Rightarrow> VotingKeyAccount"
  toBase64 :: "bytes \<Rightarrow> string"
  fromBase64 :: "string \<Rightarrow> bytes"

datatype EpochField = StartEpoch | EndEpoch

text \<open>
  The errors the modelled code throws. \<open>AccountNotFound\<close> is
  \<open>Account cannot be generated!!\<close>; \<open>EpochMismatch f expected got\<close> is
  \<open>Unexpected startEpoch/endEpoch on stored file\<close>; \<open>DuplicateIdentifier\<close> carries
  the message of \<open>Duplicated friendlyNames!!\<close> or \<open>Duplicated hostname!!\<close>;
  \<open>ExistingNetwork\<close> is \<open>You are creating nodes for an existing network\<close>;
  \<open>AlreadyGenerated\<close> is \<open>The nemesis block has been previously generated\<close>;
  \<open>NoCandidateNode\<close> is \<open>No Candidate Node!!\<close>; \<open>UnresolvedConfigValue\<close> carries
  the message of the value that could not be resolved.
\<close>

datatype error =
    AccountNotFound
  | EpochMismatch EpochField nat nat
  | DuplicateIdentifier string
  | InputFileMissing
  | StorageFileMissing
  | ExistingNetwork
  | AlreadyGenerated
  | UnresolvedConfigValue string
  | NoCandidateNode
  | External string

text \<open>
  A \<open>LocalFileKeyStore\<close>: the in-memory \<open>storage\<close>, the \<open>password\<close> given at
  construction, every document that \<open>YamlUtils.writeYaml\<close> has written to the storage
  file with the password it was written under (oldest first), and the number of accounts
  drawn from the random generator so far.
\<close>

record LocalFileKeyStore =
  storage :: KeyStorage
  password :: "string option"
  fileWrites :: "(KeyStorage \<times> string option) list"
  generated :: nat

definition toStored :: "Account \<Rightarrow> StoredAccount" where
  "toStored account =
     \<lparr>StoredAccount.privateKey = Account.privateKey account,
      StoredAccount.publicKey = Account.publicKey account,
      StoredAccount.address = Account.address account\<rparr>"

text \<open>\<open>LocalFileKeyStore.save\<close>: the whole document goes to the file.\<close>

definition save :: "LocalFileKeyStore \<Rightarrow> LocalFileKeyStore" where
  "save ks =
     ks\<lparr>fileWrites := fileWrites ks @
          [(storage ks, if truthyString (password ks) then password ks else None)]\<rparr>"

text \<open>\<open>LocalFileKeyStore.generateNewAccount\<close> (the protected method).\<close>

definition generateNewAccountKS ::
  "Sdk \<Rightarrow> bool \<Rightarrow> NetworkType \<Rightarrow> LocalFileKeyStore \<Rightarrow> error + (Account \<times> LocalFileKeyStore)" where
  "generateNewAccountKS sdk generate network_type ks =
     (if \<not> generate then Inl AccountNotFound
      else Inr (generateNewAccount sdk (generated ks) network_type,
                ks\<lparr>generated := generated ks + 1\<rparr>))"

text \<open>
  The expression \<open>stored || this.toStored(this.generateNewAccount(generate, networkType))\<close>
  shared by the two account getters.
\<close>

definition storedOrGenerated ::
  "Sdk \<Rightarrow> StoredAccount option \<Rightarrow> bool \<Rightarrow> NetworkType \<Rightarrow> LocalFileKeyStore
     \<Rightarrow> error + (StoredAccount \<times> LocalFileKeyStore)" where
  "storedOrGenerated sdk stored generate network_type ks =
     (case stored of
        Some storedAccount \<Rightarrow> Inr (storedAccount, ks)
      | None \<Rightarrow>
          (case generateNewAccountKS sdk generate network_type ks of
             Inl e \<Rightarrow> Inl e
           | Inr (account, ks') \<Rightarrow> Inr (toStored account, ks')))"

definition getNetworkAccount ::
  "Sdk \<Rightarrow> NetworkType \<Rightarrow> NetworkAccountName \<Rightarrow> bool \<Rightarrow> LocalFileKeyStore
     \<Rightarrow> error + (Account \<times> LocalFileKeyStore)" where
  "getNetworkAccount sdk network_type accountName generate ks =
     (case storedOrGenerated sdk (network (storage ks) accountName) generate network_type ks of
        Inl e \<Rightarrow> Inl e
      | Inr (storedAccount, ks') \<Rightarrow>
          let account = createFromPrivateKey sdk (StoredAccount.privateKey storedAccount) network_type;
              st = storage ks'
          in Inr (account,
                  save (ks'\<lparr>storage := st\<lparr>network := (network st)(accountName \<mapsto> toStored account)\<rparr>\<rparr>)))"

definition saveNetworkAccount ::
  "Sdk \<Rightarrow> NetworkType \<Rightarrow> NetworkAccountName \<Rightarrow> string \<Rightarrow> LocalFileKeyStore \<Rightarrow> LocalFileKeyStore" where
  "saveNetworkAccount sdk network_type accountName pk ks =
     (let st = storage ks
      in save (ks\<lparr>storage := st\<lparr>network :=
                 (network st)(accountName \<mapsto> toStored (createFromPrivateKey sdk pk network_type))\<rparr>\<rparr>))"

text \<open>The node key \<open>`${nodeName}-${nodeInformation.number}`\<close>.\<close>

definition nodeKey :: "string \<Rightarrow> nat \<Rightarrow> string" where
  "nodeKey nodeName node_number = nodeName @ ''-'' @ String node_number"

text \<open>The lookup \<open>this.storage.nodes[nodeKey]?.[keyName]\<close>.\<close>

definition storedNodeAccount :: "KeyStorage \<Rightarrow> string \<Rightarrow> KeyName \<Rightarrow> StoredAccount option" where
  "storedNodeAccount st key keyName = (case nodes st key of None \<Rightarrow> None | Some m \<Rightarrow> m keyName)"

definition getNodeAccount ::
  "Sdk \<Rightarrow> NetworkType \<Rightarrow> KeyName \<Rightarrow> string \<Rightarrow> nat \<Rightarrow> bool \<Rightarrow> LocalFileKeyStore
     \<Rightarrow> error + (Account \<times> LocalFileKeyStore)" where
  "getNodeAccount sdk network_type keyName nodeName node_number generate ks =
     (let key = nodeKey nodeName node_number;
          stored = storedNodeAccount (storage ks) key keyName
      in case storedOrGenerated sdk stored generate network_type ks of
           Inl e \<Rightarrow> Inl e
         | Inr (storedAccount, ks') \<Rightarrow>
             let account = createFromPrivateKey sdk (StoredAccount.privateKey storedAccount) network_type;
                 st = storage ks';
                 m = (case nodes st key of None \<Rightarrow> Map.empty | Some m \<Rightarrow> m)
             in Inr (account,
                     save (ks'\<lparr>storage := st\<lparr>nodes := (nodes st)(key \<mapsto> m(keyName \<mapsto> toStored account))\<rparr>\<rparr>)))"

text \<open>The voting key \<open>`${nodeName}-${nodeInformation.number}-${startEpoch}-${endEpoch}`\<close>.\<close>

definition votingKey :: "string \<Rightarrow> nat \<Rightarrow> nat \<Rightarrow> nat \<Rightarrow> string" where
  "votingKey nodeName node_number start_epoch end_epoch =
     nodeName @ ''-'' @ String node_number @ ''-'' @ String start_epoch @ ''-'' @ String end_epoch"

definition getVotingKeyFile ::
  "Sdk \<Rightarrow> NetworkType \<Rightarrow> string \<Rightarrow> nat \<Rightarrow> nat \<Rightarrow> nat \<Rightarrow> LocalFileKeyStore
     \<Rightarrow> error + (VotingKeyFileContent \<times> LocalFileKeyStore)" where
  "getVotingKeyFile sdk network_type nodeName node_number start_epoch end_epoch ks =
     (let key = votingKey nodeName node_number start_epoch end_epoch
      in case votingFiles (storage ks) key of
           Some storedFile \<Rightarrow>
             let content = fromBase64 sdk (StoredVotingFile.privateFileContent storedFile);
                 votingFile = readVotingFile sdk content
             in if startEpoch votingFile \<noteq> start_epoch
                  then Inl (EpochMismatch StartEpoch start_epoch (startEpoch votingFile))
                else if endEpoch votingFile \<noteq> end_epoch
                  then Inl (EpochMismatch EndEpoch end_epoch (endEpoch votingFile))
                else Inr (VotingKeyAccount.extend votingFile
                            (VotingKeyFileContent.fields content), ks)
         | None \<Rightarrow>
             (case generateNewAccountKS sdk True network_type ks of
                Inl e \<Rightarrow> Inl e
              | Inr (votingAccount, ks') \<Rightarrow>
                  let votingFile = \<lparr>VotingKeyAccount.publicKey = Account.publicKey votingAccount,
                                    startEpoch = start_epoch, endEpoch = end_epoch\<rparr>;
                      content = createVotingFile sdk (Account.privateKey votingAccount) start_epoch end_epoch;
                      st = storage ks';
                      ks'' = ks'\<lparr>storage := st\<lparr>votingFiles := (votingFiles st)(key \<mapsto>
                                \<lparr>StoredVotingFile.publicKey = Account.publicKey votingAccount,
                                 StoredVotingFile.privateFileContent = toBase64 sdk content\<rparr>)\<rparr>\<rparr>
                  in Inr (VotingKeyAccount.extend votingFile
                            (VotingKeyFileContent.fields content), save ks'')))"


text \<open>
  The constructor of \<open>LocalFileKeyStore\<close>; \<open>storedValue\<close> is the content of the
  storage file when it exists.
\<close>

definition defaultValue :: KeyStorage where
  "defaultValue = \<lparr>network = Map.empty, nodes = Map.empty, votingFiles = Map.empty\<rparr>"

definition newLocalFileKeyStore ::
  "string option \<Rightarrow> bool \<Rightarrow> KeyStorage option \<Rightarrow> error + LocalFileKeyStore" where
  "newLocalFileKeyStore pw mustExist storedValue =
     (case storedValue of
        None \<Rightarrow> if mustExist then Inl StorageFileMissing
                else Inr \<lparr>storage = defaultValue, password = pw, fileWrites = [], generated = 0\<rparr>
      | Some v \<Rightarrow> Inr \<lparr>storage = v, password = pw, fileWrites = [], generated = 0\<rparr>)"

text \<open>The password \<open>this.password || undefined\<close> that \<open>save\<close> hands to the writer.\<close>

definition writtenPassword :: "LocalFileKeyStore \<Rightarrow> string option" where
  "writtenPassword ks = (if truthyString (password ks) then password ks else None)"

text \<open>
  The epoch range that the key store decodes from a stored voting file, and the
  property of the toolkit that a file created for a range reads back with that range
  after the base64 round trip.
\<close>

definition storedRange :: "Sdk \<Rightarrow> StoredVotingFile \<Rightarrow> nat \<times> nat" where
  "storedRange sdk storedFile =
     (let votingFile = readVotingFile sdk (fromBase64 sdk (StoredVotingFile.privateFileContent storedFile))
      in (startEpoch votingFile, endEpoch votingFile))"

definition decodesRange :: "Sdk \<Rightarrow> string \<Rightarrow> nat \<Rightarrow> nat \<Rightarrow> bool" where
  "decodesRange sdk pk s e =
     (let votingFile = readVotingFile sdk (fromBase64 sdk (toBase64 sdk (createVotingFile sdk pk s e)))
      in startEpoch votingFile = s \<and> endEpoch votingFile = e)"


text \<open>
  The inverse of \<open>String\<close> on digit strings, used to show that \<open>String\<close> is
  injective.
\<close>

definition digitVal :: "char \<Rightarrow> nat" where
  "digitVal c = length (takeWhile (\<lambda>x. x \<noteq> c) ''0123456789'')"

definition readDecimal :: "string \<Rightarrow> nat" where
  "readDecimal s = foldl (\<lambda>a c. 10 * a + digitVal c) 0 s"


subsection \<open>A concrete SDK and concrete stores\<close>

text \<open>
  A small instance of the external operations, on which the theorems below are
  exercised: the account of private key \<open>pk\<close> has public key \<open>P\<close>\<open>pk\<close> and address
  \<open>A\<close>\<open>pk\<close>, the \<open>k\<close>-th generated account has private key \<open>K\<close>\<open>k\<close>, a voting file
  holds its two epochs in unary, and base64 text has one letter per byte.
\<close>

definition demoSdk :: Sdk where
  "demoSdk =
     \<lparr>createFromPrivateKey = (\<lambda>pk nt.
        \<lparr>Account.privateKey = pk, Account.publicKey = ''P'' @ pk, Account.address = ''A'' @ pk\<rparr>),
      generateNewAccount = (\<lambda>k nt.
        \<lparr>Account.privateKey = ''K'' @ String k, Account.publicKey = ''PK'' @ String k,
         Account.address = ''AK'' @ String k\<rparr>),
      createVotingFile = (\<lambda>pk s e. replicate s 0 @ [1] @ replicate e 0),
      readVotingFile = (\<lambda>bs.
        \<lparr>VotingKeyAccount.publicKey = ''V'',
         startEpoch = length (takeWhile (\<lambda>w. w = 0) bs),
         endEpoch = length (dropWhile (\<lambda>w. w = 0) bs) - 1\<rparr>),
      toBase64 = map (\<lambda>w. if w = 0 then CHR ''A'' else CHR ''B''),
      fromBase64 = map (\<lambda>c. if c = CHR ''A'' then 0 else 1)\<rparr>"

definition demoStore :: LocalFileKeyStore where
  "demoStore = \<lparr>storage = defaultValue, password = None, fileWrites = [], generated = 0\<rparr>"

definition founderStore :: LocalFileKeyStore where
  "founderStore =
     demoStore\<lparr>storage := defaultValue\<lparr>network :=
        [founder \<mapsto> \<lparr>StoredAccount.privateKey = ''F1'', StoredAccount.publicKey = ''PF1'',
                      StoredAccount.address = ''AF1''\<rparr>]\<rparr>\<rparr>"

definition votingStorage :: KeyStorage where
  "votingStorage =
     defaultValue\<lparr>votingFiles :=
        [''node-1-1-5'' \<mapsto> \<lparr>StoredVotingFile.publicKey = ''PK0'',
                              StoredVotingFile.privateFileContent = ''ABAAAAA''\<rparr>]\<rparr>"

definition votingStore :: LocalFileKeyStore where
  "votingStore =
     \<lparr>storage = votingStorage, password = None, fileWrites = [(votingStorage, None)],
      generated = 1\<rparr>"

definition votingFile1to5 :: VotingKeyFileContent where
  "votingFile1to5 =
     \<lparr>VotingKeyAccount.publicKey = ''PK0'', startEpoch = 1, endEpoch = 5,
      VotingKeyFileContent.privateFileContent = [0, 1, 0, 0, 0, 0, 0]\<rparr>"

text \<open>The same file as the key store reads it back from the stored text.\<close>

definition storedFile1to5 :: VotingKeyFileContent where
  "storedFile1to5 =
     \<lparr>VotingKeyAccount.publicKey = ''V'', startEpoch = 1, endEpoch = 5,
      VotingKeyFileContent.privateFileContent = [0, 1, 0, 0, 0, 0, 0]\<rparr>"

section \<open>String replacement\<close>

text \<open>
  \<open>str.replace(searchString, replaceValue)\<close> with a string pattern: the first
  occurrence of the pattern is replaced. \<open>splitFirst\<close> finds it and returns the text
  before and after it.
\<close>

fun splitFirst :: "string \<Rightarrow> string \<Rightarrow> (string \<times> string) option" where
  "splitFirst pat [] = (if pat = [] then Some ([], []) else None)"
| "splitFirst pat (c # cs) =
     (if take (length pat) (c # cs) = pat then Some ([], drop (length pat) (c # cs))
      else (case splitFirst pat cs of None \<Rightarrow> None | Some (b, a) \<Rightarrow> Some (c # b, a)))"

text \<open>
  The replacement text is not taken literally: \<open>$$\<close> stands for a dollar sign,
  \<open>$&\<close> for the matched text, \<open>$`\<close> for the text before the match and \<open>$'\<close> for
  the text after it. A string pattern has no capture groups, so every other use of the
  dollar sign stands for itself.
\<close>

fun getSubstitution :: "string \<Rightarrow> string \<Rightarrow> string \<Rightarrow> string \<Rightarrow> string" where
  "getSubstitution matched before after [] = []"
| "getSubstitution matched before after [c] = [c]"
| "getSubstitution matched before after (c # d # r) =
     (if c = CHR ''$'' \<and> d = CHR ''$'' then CHR ''$'' # getSubstitution matched before after r
      else if c = CHR ''$'' \<and> d = CHR ''&'' then matched @ getSubstitution matched before after r
      else if c = CHR ''$'' \<and> d = CHR 0x60 then before @ getSubstitution matched before after r
      else if c = CHR ''$'' \<and> d = CHR 0x27 then after @ getSubstitution matched before after r
      else c # getSubstitution matched before after (d # r))"

definition replace :: "string \<Rightarrow> string \<Rightarrow> string \<Rightarrow> string" where
  "replace pat replaceValue str =
     (case splitFirst pat str of
        None \<Rightarrow> str
      | Some (b, a) \<Rightarrow> b @ getSubstitution pat b a replaceValue @ a)"


section \<open>Topology expansion (NetworkConfigurationService.expandNodes)\<close>

text \<open>
  The working directory as the services see it: the two topology documents, the
  preset documents by file name, the folders that exist, and the key store.
\<close>

record Workspace =
  networkInputFile :: "NetworkInputFile option"
  networkFile :: "NetworkFile option"
  presetFiles :: "string \<rightharpoonup> CustomPreset"
  folders :: "string list"
  keyStore :: LocalFileKeyStore

text \<open>\<open>NetworkUtils.resolveRestUrl\<close> and \<open>NetworkUtils.resolveExplorerUrl\<close>.\<close>

definition resolveRestUrl :: "string \<Rightarrow> RestProtocol option \<Rightarrow> string" where
  "resolveRestUrl host_name rest_protocol =
     (if rest_protocol = Some HttpOnly then ''http://'' @ host_name @ '':3000''
      else ''https://'' @ host_name @ '':3001'')"

definition resolveExplorerUrl :: "string \<Rightarrow> string" where
  "resolveExplorerUrl host_name = ''http://'' @ host_name @ '':90''"

text \<open>
  The \<open>reduce\<close> over the entries of \<open>friendlyNamePatternData\<close>, in the order
  \<open>suffix\<close>, \<open>nickname\<close>, \<open>friendlyNumber\<close>.
\<close>

definition formatFriendlyName :: "string \<Rightarrow> string \<Rightarrow> string \<Rightarrow> string \<Rightarrow> string" where
  "formatFriendlyName pattern suffixValue nickname friendlyNumber =
     foldl (\<lambda>pattern (key, value). replace (''$'' @ key) value pattern) pattern
       [(''suffix'', suffixValue), (''nickname'', nickname), (''friendlyNumber'', friendlyNumber)]"

text \<open>The template that \<open>expandNodes\<close> formats: the user's, or the default one.\<close>

definition templateOf :: "NetworkInputFile \<Rightarrow> string" where
  "templateOf input =
     (if friendlyNamePattern input \<noteq> [] then friendlyNamePattern input
      else ''$suffix-$nickname-$friendlyNumber'')"

text \<open>One iteration of the inner loop: the node built for one unit of a node type.\<close>

definition expandOne :: "NetworkInputFile \<Rightarrow> NodeTypeInput \<Rightarrow> ExpandState \<Rightarrow> ExpandState" where
  "expandOne input nodeTypeInput st =
     (let nickname = NodeTypeInput.nickName nodeTypeInput;
          regionIndex = 0;
          counterIndex = nickname @ String regionIndex;
          nickNameNumber = (case counters st counterIndex of None \<Rightarrow> 0 | Some n \<Rightarrow> n) + 1;
          pattern = templateOf input;
          friendlyNumber = String regionIndex @ zeroPad nickNameNumber 2;
          friendlyName = formatFriendlyName pattern (suffix input) nickname friendlyNumber;
          hostname = friendlyName @ ''.'' @ domain input;
          metadata = nodesMetadata (NodeTypeInput.nodeType nodeTypeInput);
          assembly = getAssembly metadata;
          preset0 = emptyPreset
            \<lparr>privateKeySecurityMode := Some ''PROMPT_MAIN_TRANSPORT'',
             CustomPreset.nodes := Some
               [\<lparr>NodePreset.friendlyName = Some friendlyName, NodePreset.host = Some hostname,
                 NodePreset.voting = Some (NodeTypeMetadata.voting metadata),
                 NodePreset.harvesting = Some (NodeTypeMetadata.harvesting metadata),
                 dockerComposeDebugMode = Some False,
                 brokerDockerComposeDebugMode = Some False,
                 excludeFromNemesis = None\<rparr>]\<rparr>;
          preset1 = (if api metadata \<and> NodeTypeInput.restProtocol nodeTypeInput = Some HttpsOnly
                     then preset0\<lparr>gateways := Some [False], httpsProxies := Some [False]\<rparr>
                     else preset0);
          preset2 = (if api metadata \<and> NodeTypeInput.restProtocol nodeTypeInput = Some HttpAndHttps
                     then preset1\<lparr>gateways := Some [True], httpsProxies := Some [False]\<rparr>
                     else preset1);
          preset3 = (if demo metadata
                     then preset2\<lparr>faucets := Some
                            [\<lparr>repeat = None, environment =
                               [(''DEFAULT_NODE_CLIENT'',
                                   Some (resolveRestUrl hostname (NodeTypeInput.restProtocol nodeTypeInput))),
                                (''EXPLORER_URL'', Some (resolveExplorerUrl hostname))]\<rparr>]\<rparr>
                     else preset2);
          node = \<lparr>NodeInformation.number = nodeCounter st + 1,
                  NodeInformation.nickName = nickname,
                  NodeInformation.friendlyName = friendlyName,
                  NodeInformation.assembly = assembly,
                  NodeInformation.hostname = hostname,
                  NodeInformation.nodeType = NodeTypeInput.nodeType nodeTypeInput,
                  NodeInformation.restProtocol = NodeTypeInput.restProtocol nodeTypeInput,
                  NodeInformation.balances = NodeTypeInput.balances nodeTypeInput,
                  addresses = None,
                  customPreset = Some preset3\<rparr>
      in \<lparr>ExpandState.nodes = ExpandState.nodes st @ [node],
          nodeCounter = nodeCounter st + 1,
          counters = (counters st)(counterIndex \<mapsto> nickNameNumber)\<rparr>)"

text \<open>The inner loop runs \<open>total\<close> times, the outer loop over the node types in order.\<close>

definition expandType :: "NetworkInputFile \<Rightarrow> ExpandState \<Rightarrow> NodeTypeInput \<Rightarrow> ExpandState" where
  "expandType input st nodeTypeInput = ((expandOne input nodeTypeInput) ^^ total nodeTypeInput) st"

definition expandedNodes :: "NetworkInputFile \<Rightarrow> NodeInformation list" where
  "expandedNodes input =
     ExpandState.nodes
       (foldl (expandType input)
          \<lparr>ExpandState.nodes = [], nodeCounter = 0, counters = Map.empty\<rparr> (nodeTypes input))"

text \<open>
  \<open>_.uniqBy(array, iteratee)\<close>: the elements whose computed value has not been seen
  before, in order.
\<close>

fun baseUniq :: "('a \<Rightarrow> 'b) \<Rightarrow> 'b list \<Rightarrow> 'a list \<Rightarrow> 'a list" where
  "baseUniq f seen [] = []"
| "baseUniq f seen (x # xs) =
     (if f x \<in> set seen then baseUniq f seen xs else x # baseUniq f (seen @ [f x]) xs)"

definition uniqBy :: "'a list \<Rightarrow> ('a \<Rightarrow> 'b) \<Rightarrow> 'a list" where
  "uniqBy xs f = baseUniq f [] xs"

text \<open>
  \<open>expandNodes\<close>. The parameter is the toolkit's \<open>CryptoUtils.removePrivateKeys\<close>,
  applied by \<open>NetworkUtils.saveNetwork\<close> to the document it writes. The result is
  the value returned or the error thrown, and the working directory afterwards.
\<close>

definition saveNetwork :: "(NetworkFile \<Rightarrow> NetworkFile) \<Rightarrow> NetworkFile \<Rightarrow> Workspace \<Rightarrow> Workspace" where
  "saveNetwork stripKeys output ws = ws\<lparr>networkFile := Some (stripKeys output)\<rparr>"

definition expandNodes ::
  "(NetworkFile \<Rightarrow> NetworkFile) \<Rightarrow> Workspace \<Rightarrow> (error + NetworkFile) \<times> Workspace" where
  "expandNodes stripKeys ws =
     (case networkInputFile ws of
        None \<Rightarrow> (Inl InputFileMissing, ws)
      | Some input \<Rightarrow>
          let nodes = expandedNodes input
          in if length nodes \<noteq> length (uniqBy nodes NodeInformation.friendlyName)
               then (Inl (DuplicateIdentifier ''Duplicated friendlyNames!!''), ws)
             else if length nodes \<noteq> length (uniqBy nodes NodeInformation.hostname)
               then (Inl (DuplicateIdentifier ''Duplicated hostname!!''), ws)
             else let output = BasicNetworkFile.extend (BasicNetworkFile.truncate input)
                                 (NetworkFile.fields nodes)
                  in (Inr output, saveNetwork stripKeys output ws))"

text \<open>The variables of the friendly-name template, and the formatted counter.\<close>

definition templateVariables :: "string list" where
  "templateVariables = [''$suffix'', ''$nickname'', ''$friendlyNumber'']"


text \<open>The number that \<open>expandNodes\<close> formats for the next node of a nickname.\<close>

definition friendlyNumberOf :: "ExpandState \<Rightarrow> string \<Rightarrow> string" where
  "friendlyNumberOf st nickname =
     String 0 @ zeroPad ((case counters st (nickname @ String 0) of None \<Rightarrow> 0 | Some n \<Rightarrow> n) + 1) 2"


text \<open>The number of places of a text at which a given word occurs.\<close>

fun occurrences :: "string \<Rightarrow> string \<Rightarrow> nat" where
  "occurrences q [] = 0"
| "occurrences q (c # cs) = (if take (length q) (c # cs) = q then 1 else 0) + occurrences q cs"

text \<open>A template variable: a dollar sign followed by letters, none of them a dollar sign.\<close>

definition isVariable :: "string \<Rightarrow> bool" where
  "isVariable q = (case q of [] \<Rightarrow> False | c # w \<Rightarrow> c = CHR ''$'' \<and> w \<noteq> [] \<and> CHR ''$'' \<notin> set w)"


section \<open>Genesis assembly (services/NetworkGenesisService.ts)\<close>

record GenerateNemesisParams =
  regenerate :: bool
  password :: "string option"
  composeUser :: "string option"

text \<open>\<open>TransactionInformation\<close>; its field \<open>type\<close> is written \<open>type'\<close> here.\<close>

record TransactionInformation =
  nodeNumber :: nat
  type' :: string
  typeNumber :: nat
  payload :: string

text \<open>An element of \<open>nemesisBalances\<close>.\<close>

record NemesisBalance =
  mosaicIndex :: nat
  address :: string
  amount :: Number

text \<open>
  The operations of the toolkit, of the SDK and of the platform that the genesis
  assembly calls; they are parameters of the model:
  \<^item> \<open>removePrivateKeys\<close>: \<open>CryptoUtils.removePrivateKeys\<close> on a topology document;
  \<^item> \<open>isYmlFile\<close>: \<open>YamlUtils.isYmlFile\<close>;
  \<^item> \<open>join\<close>: \<open>path.join\<close> of two segments;
  \<^item> \<open>loadNetworkPreset\<close>: \<open>ConfigLoader.loadNetworkPreset(preset, workingDir)\<close>,
    given the preset documents on disk;
  \<^item> \<open>mergePresets\<close>: \<open>ConfigLoader.mergePresets\<close>;
  \<^item> \<open>signVrfKeyLink\<close>, \<open>signAccountKeyLink\<close>, \<open>signVotingKeyLink\<close>: the payload of
    the link transaction created with the deadline of the genesis block and signed by
    the main account against the generation hash seed;
  \<^item> \<open>configAndCompose\<close>: \<open>BootstrapService.config\<close> followed by
    \<open>BootstrapService.compose\<close>, with the candidate node of the account resolver, the
    preset name and the nemesis custom preset; it fails or leaves the key store it
    used;
  \<^item> \<open>exponentiate\<close>: \<open>base ** exponent\<close> on Numbers (\<open>Number::exponentiate\<close>), whose
    result the language leaves to the engine (an approximation of the power).
\<close>

record Toolkit =
  removePrivateKeys :: "NetworkFile \<Rightarrow> NetworkFile"
  isYmlFile :: "string \<Rightarrow> bool"
  join :: "string \<Rightarrow> string \<Rightarrow> string"
  loadNetworkPreset :: "string \<Rightarrow> string \<Rightarrow> (string \<rightharpoonup> CustomPreset) \<Rightarrow> CustomPreset"
  mergePresets :: "CustomPreset \<Rightarrow> CustomPreset option \<Rightarrow> CustomPreset"
  signVrfKeyLink :: "Account \<Rightarrow> string \<Rightarrow> NetworkType \<Rightarrow> string \<Rightarrow> string"
  signAccountKeyLink :: "Account \<Rightarrow> string \<Rightarrow> NetworkType \<Rightarrow> string \<Rightarrow> string"
  signVotingKeyLink :: "Account \<Rightarrow> string \<Rightarrow> nat \<Rightarrow> nat \<Rightarrow> NetworkType \<Rightarrow> string \<Rightarrow> string"
  configAndCompose ::
    "NodeInformation \<Rightarrow> string \<Rightarrow> CustomPreset \<Rightarrow> GenerateNemesisParams
       \<Rightarrow> LocalFileKeyStore \<Rightarrow> error + LocalFileKeyStore"
  exponentiate :: "Number \<Rightarrow> Number \<Rightarrow> Number"

text \<open>\<open>NetworkUtils.getTransactionKey\<close>.\<close>

definition getTransactionKey :: "TransactionInformation \<Rightarrow> string" where
  "getTransactionKey transaction =
     String (typeNumber transaction) @ ''_'' @ type' transaction @ ''_''
       @ zeroPad (nodeNumber transaction) 5"

text \<open>
  \<open>_.mapValues(_.keyBy(transactions, key), payload)\<close>: an object keeps the position
  of the first assignment of a key and the value of the last one.
\<close>

fun assign :: "('k \<times> 'v) list \<Rightarrow> 'k \<Rightarrow> 'v \<Rightarrow> ('k \<times> 'v) list" where
  "assign [] k v = [(k, v)]"
| "assign ((k', v') # kvs) k v = (if k' = k then (k, v) # kvs else (k', v') # assign kvs k v)"

definition keyByPayload :: "TransactionInformation list \<Rightarrow> (string \<times> string) list" where
  "keyByPayload txs = foldl (\<lambda>obj tx. assign obj (getTransactionKey tx) (payload tx)) [] txs"

text \<open>
  \<open>NetworkConfigurationService.updateNetworkPreset\<close>; \<open>wd\<close> is the working
  directory of the service.
\<close>

definition updateNetworkPreset ::
  "Toolkit \<Rightarrow> Sdk \<Rightarrow> string \<Rightarrow> string \<Rightarrow> NetworkType \<Rightarrow> string list option
     \<Rightarrow> PeerInfo list option \<Rightarrow> CustomPreset option \<Rightarrow> string \<Rightarrow> Workspace \<Rightarrow> (error + CustomPreset) \<times> Workspace" where
  "updateNetworkPreset tk sdk wd presetName nt gateways_in peers_in customNetwork saveAsFile ws =
     (let networkPreset = loadNetworkPreset tk presetName wd (presetFiles ws)
      in case getNetworkAccount sdk nt nemesisSigner True (keyStore ws) of
           Inl e \<Rightarrow> (Inl e, ws)
         | Inr (nemesisSignerAccount, ks1) \<Rightarrow>
      (case getNetworkAccount sdk nt harvestNetworkFeeSink True ks1 of
           Inl e \<Rightarrow> (Inl e, ws\<lparr>keyStore := ks1\<rparr>)
         | Inr (harvestNetworkFeeSinkAccount, ks2) \<Rightarrow>
      (case getNetworkAccount sdk nt namespaceRentalFeeSink True ks2 of
           Inl e \<Rightarrow> (Inl e, ws\<lparr>keyStore := ks2\<rparr>)
         | Inr (namespaceRentalFeeSinkAccount, ks3) \<Rightarrow>
      (case getNetworkAccount sdk nt mosaicRentalFeeSink True ks3 of
           Inl e \<Rightarrow> (Inl e, ws\<lparr>keyStore := ks3\<rparr>)
         | Inr (mosaicRentalFeeSinkAccount, ks4) \<Rightarrow>
             let updated = networkPreset
                   \<lparr>currencyMosaicId := None,
                    harvestingMosaicId := None,
                    statisticsServiceUrl := None,
                    harvestNetworkFeeSinkAddressV1 := None,
                    mosaicRentalFeeSinkAddressV1 := None,
                    namespaceRentalFeeSinkAddressV1 := None,
                    CustomPreset.nemesisSeedFolder := Some ''nemesis-seed'',
                    lastKnownNetworkEpoch := Some 1,
                    CustomPreset.networkType := Some nt,
                    nemesisSignerPublicKey := Some (Account.publicKey nemesisSignerAccount),
                    harvestNetworkFeeSinkAddress := Some (Account.address harvestNetworkFeeSinkAccount),
                    namespaceRentalFeeSinkAddress := Some (Account.address namespaceRentalFeeSinkAccount),
                    mosaicRentalFeeSinkAddress := Some (Account.address mosaicRentalFeeSinkAccount),
                    CustomPreset.knownRestGateways := gateways_in,
                    CustomPreset.knownPeers := peers_in\<rparr>;
                 toStoreNetworkPreset = mergePresets tk updated customNetwork
             in (Inr toStoreNetworkPreset,
                 ws\<lparr>keyStore := ks4,
                    presetFiles := (presetFiles ws)(join tk wd saveAsFile \<mapsto> toStoreNetworkPreset)\<rparr>)))))"

text \<open>The variables that the loop over the nodes updates, with the key store.\<close>

record GenesisState =
  transactions :: "TransactionInformation list"
  knownPeers :: "PeerInfo list"
  nemesisBalances :: "NemesisBalance list"
  knownRestGateways :: "string list"
  keyStore :: LocalFileKeyStore

text \<open>
  \<open>array[index] || 0\<close> on an array of Numbers: an index past the end gives
  \<open>undefined\<close>, which is falsy like zero.
\<close>

definition balanceAt :: "Number list \<Rightarrow> nat \<Rightarrow> Number" where
  "balanceAt bs i = (if i < length bs then bs ! i else 0)"

text \<open>
  The \<open>forEach\<close> over the mosaics that appends the balance of one account: the
  indices still to visit, and the list appended to.
\<close>

fun balancesLoop ::
  "Toolkit \<Rightarrow> MosaicPreset list \<Rightarrow> Number list \<Rightarrow> string \<Rightarrow> nat list \<Rightarrow> NemesisBalance list
     \<Rightarrow> error + NemesisBalance list" where
  "balancesLoop tk ms bs addr [] acc = Inr acc"
| "balancesLoop tk ms bs addr (mosaic_index # rest) acc =
     (let nodeBalance = balanceAt bs mosaic_index
      in if nodeBalance \<noteq> 0
         then (case divisibility (ms ! mosaic_index) of
                 None \<Rightarrow> Inl (UnresolvedConfigValue ''Divisibility should be defined!!'')
               | Some d \<Rightarrow>
                   balancesLoop tk ms bs addr rest
                     (acc @ [\<lparr>mosaicIndex = mosaic_index, NemesisBalance.address = addr,
                              amount = multiply nodeBalance (exponentiate tk 10 d)\<rparr>]))
         else balancesLoop tk ms bs addr rest acc)"

definition appendBalances ::
  "Toolkit \<Rightarrow> MosaicPreset list \<Rightarrow> Number list \<Rightarrow> string \<Rightarrow> NemesisBalance list
     \<Rightarrow> error + NemesisBalance list" where
  "appendBalances tk ms bs addr acc = balancesLoop tk ms bs addr [0..<length ms] acc"

definition rolesOf :: "NodeTypeMetadata \<Rightarrow> string list" where
  "rolesOf metadata =
     (if api metadata then [''Api''] else []) @ (if peer metadata then [''Peer''] else [])
       @ (if NodeTypeMetadata.voting metadata then [''Voting''] else [])"

text \<open>\<open>roles.join(',')\<close>.\<close>

fun joinComma :: "string list \<Rightarrow> string" where
  "joinComma [] = []"
| "joinComma [x] = x"
| "joinComma (x # y # ys) = x @ '','' @ joinComma (y # ys)"

text \<open>
  The body of the loop over the nodes. The result is the error thrown, if any, and
  the variables at that point.
\<close>

definition processNode ::
  "Toolkit \<Rightarrow> Sdk \<Rightarrow> NetworkType \<Rightarrow> string \<Rightarrow> MosaicPreset list \<Rightarrow> CustomPreset
     \<Rightarrow> NodeInformation \<Rightarrow> GenesisState \<Rightarrow> error option \<times> GenesisState" where
  "processNode tk sdk nt seed ms networkPreset node st =
     (let metadata = nodesMetadata (NodeInformation.nodeType node)
      in if services metadata = Some True then (None, st)
      else
      let nodeName = ''node''
      in case getNodeAccount sdk nt Main nodeName (NodeInformation.number node) True
                (GenesisState.keyStore st) of
           Inl e \<Rightarrow> (Some e, st)
         | Inr (mainAccount, ks1) \<Rightarrow>
      (case getNodeAccount sdk nt VRF nodeName (NodeInformation.number node) True ks1 of
           Inl e \<Rightarrow> (Some e, st\<lparr>GenesisState.keyStore := ks1\<rparr>)
         | Inr (vrfAccount, ks2) \<Rightarrow>
      (case getNodeAccount sdk nt Remote nodeName (NodeInformation.number node) True ks2 of
           Inl e \<Rightarrow> (Some e, st\<lparr>GenesisState.keyStore := ks2\<rparr>)
         | Inr (remoteAccount, ks3) \<Rightarrow>
      let peerInfo = \<lparr>PeerInfo.publicKey = Account.publicKey mainAccount,
                      PeerInfo.host = NodeInformation.hostname node, port = 7900,
                      PeerInfo.name = NodeInformation.friendlyName node,
                      roles = joinComma (rolesOf metadata)\<rparr>;
          st1 = st\<lparr>GenesisState.keyStore := ks3,
                   GenesisState.knownPeers := GenesisState.knownPeers st @ [peerInfo],
                   GenesisState.knownRestGateways :=
                     (if api metadata
                      then GenesisState.knownRestGateways st
                             @ [resolveRestUrl (NodeInformation.hostname node)
                                  (NodeInformation.restProtocol node)]
                      else GenesisState.knownRestGateways st)\<rparr>
      in case appendBalances tk ms (NodeInformation.balances node) (Account.address mainAccount)
                (nemesisBalances st1) of
           Inl e \<Rightarrow> (Some e, st1)
         | Inr balances' \<Rightarrow>
      let st2 = st1\<lparr>nemesisBalances := balances',
                    transactions := transactions st1 @
                      [\<lparr>nodeNumber = NodeInformation.number node, type' = ''VRF'', typeNumber = 1,
                        payload = signVrfKeyLink tk mainAccount (Account.publicKey vrfAccount) nt seed\<rparr>,
                       \<lparr>nodeNumber = NodeInformation.number node, type' = ''Remote'', typeNumber = 2,
                        payload = signAccountKeyLink tk mainAccount (Account.publicKey remoteAccount)
                                    nt seed\<rparr>]\<rparr>
      in if NodeTypeMetadata.voting metadata
         then
           let lifetime =
                 (case (case customPreset node of None \<Rightarrow> None
                        | Some p \<Rightarrow> votingKeyDesiredLifetime p) of
                    Some n \<Rightarrow> if n \<noteq> 0 then Some n else votingKeyDesiredLifetime networkPreset
                  | None \<Rightarrow> votingKeyDesiredLifetime networkPreset)
           in (case lifetime of
                 None \<Rightarrow> (Some (UnresolvedConfigValue ''votingKeyDesiredLifetime must be resolved!''), st2)
               | Some l \<Rightarrow>
                   if l = 0
                   then (Some (UnresolvedConfigValue ''votingKeyDesiredLifetime must be resolved!''), st2)
                   else (case getVotingKeyFile sdk nt nodeName (NodeInformation.number node) 1 l
                                (GenesisState.keyStore st2) of
                           Inl e \<Rightarrow> (Some e, st2)
                         | Inr (votingFileData, ks4) \<Rightarrow>
                             (None, st2\<lparr>GenesisState.keyStore := ks4,
                                transactions := transactions st2 @
                                  [\<lparr>nodeNumber = NodeInformation.number node, type' = ''Voting'',
                                    typeNumber = 3,
                                    payload = signVotingKeyLink tk mainAccount
                                      (VotingKeyAccount.publicKey votingFileData)
                                      (startEpoch votingFileData) (endEpoch votingFileData)
                                      nt seed\<rparr>]\<rparr>)))
         else (None, st2))))"

fun processNodes ::
  "Toolkit \<Rightarrow> Sdk \<Rightarrow> NetworkType \<Rightarrow> string \<Rightarrow> MosaicPreset list \<Rightarrow> CustomPreset
     \<Rightarrow> NodeInformation list \<Rightarrow> GenesisState \<Rightarrow> error option \<times> GenesisState" where
  "processNodes tk sdk nt seed ms networkPreset [] st = (None, st)"
| "processNodes tk sdk nt seed ms networkPreset (node # rest) st =
     (case processNode tk sdk nt seed ms networkPreset node st of
        (Some e, st') \<Rightarrow> (Some e, st')
      | (None, st') \<Rightarrow> processNodes tk sdk nt seed ms networkPreset rest st')"

text \<open>
  The value of an \<open>async\<close> predicate is a promise of what its body returns, and every
  promise is truthy.
\<close>

datatype jsValue = JsBoolean bool | JsPromise jsValue

fun truthy :: "jsValue \<Rightarrow> bool" where
  "truthy (JsBoolean b) = b"
| "truthy (JsPromise v) = True"

text \<open>The predicate \<open>async (n) => nodesMetadata[n.nodeType].harvesting\<close>.\<close>

definition isHarvestingAsync :: "NodeInformation \<Rightarrow> jsValue" where
  "isHarvestingAsync n =
     JsPromise (JsBoolean (NodeTypeMetadata.harvesting (nodesMetadata (NodeInformation.nodeType n))))"

text \<open>The choice of the candidate node: \<open>input.nodes.find(...)\<close> and the check after it.\<close>

definition findCandidate :: "NodeInformation list \<Rightarrow> error + NodeInformation" where
  "findCandidate ns =
     (case List.find (\<lambda>n. truthy (isHarvestingAsync n)) ns of
        None \<Rightarrow> Inl NoCandidateNode
      | Some node \<Rightarrow> Inr node)"

text \<open>\<open>FileSystemService.deleteFolder\<close> and \<open>copyDir\<close>, on the list of folders.\<close>

definition deleteFolder :: "string \<Rightarrow> Workspace \<Rightarrow> Workspace" where
  "deleteFolder folder ws = ws\<lparr>folders := filter (\<lambda>f. f \<noteq> folder) (folders ws)\<rparr>"

definition createFolder :: "string \<Rightarrow> Workspace \<Rightarrow> Workspace" where
  "createFolder folder ws =
     (if folder \<in> set (folders ws) then ws else ws\<lparr>folders := folders ws @ [folder]\<rparr>)"

text \<open>
  The distributions of the faucet: the same loop over the mosaics, on
  \<open>input.faucetBalances?.[mosaicIndex]\<close> and the address of the faucet account.
\<close>

definition appendFaucetBalances ::
  "Toolkit \<Rightarrow> MosaicPreset list \<Rightarrow> Number list \<Rightarrow> string \<Rightarrow> NemesisBalance list
     \<Rightarrow> error + NemesisBalance list" where
  "appendFaucetBalances tk ms bs addr acc = appendBalances tk ms bs addr acc"

text \<open>The additional distributions, mosaic by mosaic.\<close>

fun additionalLoop ::
  "Toolkit \<Rightarrow> MosaicPreset list \<Rightarrow> CurrencyDistribution list list \<Rightarrow> nat list
     \<Rightarrow> NemesisBalance list \<Rightarrow> error + NemesisBalance list" where
  "additionalLoop tk ms dists [] acc = Inr acc"
| "additionalLoop tk ms dists (mosaic_index # rest) acc =
     (if mosaic_index < length dists
      then (case divisibility (ms ! mosaic_index) of
              None \<Rightarrow> Inl (UnresolvedConfigValue ''Divisibility should be defined!!'')
            | Some d \<Rightarrow>
                additionalLoop tk ms dists rest
                  (acc @ map (\<lambda>distribution.
                          \<lparr>mosaicIndex = mosaic_index,
                           NemesisBalance.address = CurrencyDistribution.address distribution,
                           amount = multiply (CurrencyDistribution.amount distribution)
                                      (exponentiate tk 10 d)\<rparr>)
                        (dists ! mosaic_index)))
      else additionalLoop tk ms dists rest acc)"

text \<open>The nemesis custom preset handed to the toolkit.\<close>

definition nemesisCustomPresetOf ::
  "Account \<Rightarrow> Account \<Rightarrow> Account option \<Rightarrow> MosaicPreset list \<Rightarrow> NemesisBalance list
     \<Rightarrow> (string \<times> string) list \<Rightarrow> CustomPreset" where
  "nemesisCustomPresetOf nemesisSignerAccount founderAccount faucetAccount ms bals txs =
     emptyPreset
       \<lparr>CustomPreset.nemesisSeedFolder := Some [],
        CustomPreset.nodes := Some
          [\<lparr>NodePreset.friendlyName = Some ''nemesis-private-node'', NodePreset.host = None,
            NodePreset.voting = Some False, NodePreset.harvesting = None,
            dockerComposeDebugMode = None, brokerDockerComposeDebugMode = None,
            excludeFromNemesis = Some True\<rparr>],
        nemesis := Some
          \<lparr>nemesisSignerPrivateKey = Some (Account.privateKey nemesisSignerAccount),
           mosaics = Some (map (\<lambda>index.
              \<lparr>divisibility = None,
               accounts = Some [Account.publicKey founderAccount],
               currencyDistributions = Some
                 (map (\<lambda>n. \<lparr>CurrencyDistribution.address = NemesisBalance.address n,
                             CurrencyDistribution.amount = NemesisBalance.amount n\<rparr>)
                    (filter (\<lambda>n. mosaicIndex n = index) bals))\<rparr>) [0..<length ms]),
           NemesisPreset.transactions = Some txs\<rparr>,
        faucets := Some
          [\<lparr>repeat = Some (if faucetAccount = None then 0 else 1),
            environment = [(''FAUCET_PRIVATE_KEY'', map_option Account.privateKey faucetAccount)]\<rparr>]\<rparr>"

text \<open>
  \<open>generateNemesis\<close>, after its two guards: everything from the deletion of the
  target folders on. \<open>wd\<close> is the working directory.
\<close>

definition assembleNemesis ::
  "Toolkit \<Rightarrow> Sdk \<Rightarrow> string \<Rightarrow> GenerateNemesisParams \<Rightarrow> NetworkFile \<Rightarrow> Workspace
     \<Rightarrow> (error + string) \<times> Workspace" where
  "assembleNemesis tk sdk wd params input ws =
     (let nemesisTargetFolder = join tk wd ''nemesis-target'';
          nodesFolder = join tk wd ''nodes'';
          zipFolder = join tk wd ''distribution'';
          ws0 = deleteFolder zipFolder (deleteFolder nodesFolder (deleteFolder nemesisTargetFolder ws));
          nt = BasicNetworkFile.networkType input
      in case updateNetworkPreset tk sdk wd (preset input) nt None None (customNetworkPreset input)
                (preset input) ws0 of
           (Inl e, ws1) \<Rightarrow> (Inl e, ws1)
         | (Inr networkPreset, ws1) \<Rightarrow>
      if \<not> truthyString (nemesisGenerationHashSeed networkPreset)
      then (Inl (UnresolvedConfigValue ''nemesisGenerationHashSeed could not be resolved''), ws1)
      else
      (case nemesis networkPreset of
         None \<Rightarrow> (Inl (UnresolvedConfigValue ''Nemesis must be resolved from network preset!''), ws1)
       | Some nemesisPreset \<Rightarrow>
      (case mosaics nemesisPreset of
         None \<Rightarrow> (Inl (UnresolvedConfigValue ''Network nemesis's mosaics must be found!''), ws1)
       | Some ms \<Rightarrow>
      (case getNetworkAccount sdk nt founder True (Workspace.keyStore ws1) of
         Inl e \<Rightarrow> (Inl e, ws1)
       | Inr (founderAccount, ks1) \<Rightarrow>
      (case processNodes tk sdk nt (the (nemesisGenerationHashSeed networkPreset)) ms networkPreset
              (NetworkFile.nodes input)
              \<lparr>transactions = [], GenesisState.knownPeers = [], nemesisBalances = [],
               GenesisState.knownRestGateways = [], GenesisState.keyStore = ks1\<rparr> of
         (Some e, st) \<Rightarrow> (Inl e, ws1\<lparr>Workspace.keyStore := GenesisState.keyStore st\<rparr>)
       | (None, st) \<Rightarrow>
      (case getNetworkAccount sdk nt nemesisSigner False (GenesisState.keyStore st) of
         Inl e \<Rightarrow> (Inl e, ws1\<lparr>Workspace.keyStore := GenesisState.keyStore st\<rparr>)
       | Inr (nemesisSignerAccount, ks2) \<Rightarrow>
      let written = networkPreset
            \<lparr>CustomPreset.knownPeers := Some (GenesisState.knownPeers st),
             CustomPreset.knownRestGateways := Some (GenesisState.knownRestGateways st)\<rparr>;
          ws2 = ws1\<lparr>Workspace.keyStore := ks2,
                    presetFiles := (presetFiles ws1)(join tk wd (preset input) \<mapsto> written)\<rparr>;
          nemesisTransactions = keyByPayload (transactions st)
      in
      (case (case faucetBalances input of
               None \<Rightarrow> Inr (None, ks2)
             | Some fb \<Rightarrow>
                 (case getNetworkAccount sdk nt faucet True ks2 of
                    Inl e \<Rightarrow> Inl e
                  | Inr (faucetAccount, ks3) \<Rightarrow> Inr (Some faucetAccount, ks3))) of
         Inl e \<Rightarrow> (Inl e, ws2)
       | Inr (faucetAccount, ks3) \<Rightarrow>
      let ws3 = ws2\<lparr>Workspace.keyStore := ks3\<rparr>
      in
      (case (case faucetAccount of
               None \<Rightarrow> Inr (nemesisBalances st)
             | Some account \<Rightarrow>
                 appendFaucetBalances tk ms (case faucetBalances input of None \<Rightarrow> [] | Some fb \<Rightarrow> fb)
                   (Account.address account) (nemesisBalances st)) of
         Inl e \<Rightarrow> (Inl e, ws3)
       | Inr bals1 \<Rightarrow>
      (case (case additionalCurrencyDistributions input of
               None \<Rightarrow> Inr bals1
             | Some dists \<Rightarrow> additionalLoop tk ms dists [0..<length ms] bals1) of
         Inl e \<Rightarrow> (Inl e, ws3)
       | Inr bals2 \<Rightarrow>
      let nemesisCustomPreset =
            nemesisCustomPresetOf nemesisSignerAccount founderAccount faucetAccount ms bals2
              nemesisTransactions
      in
      (case findCandidate (NetworkFile.nodes input) of
         Inl e \<Rightarrow> (Inl e, ws3)
       | Inr node \<Rightarrow>
      (case configAndCompose tk node (preset input) nemesisCustomPreset params
              (Workspace.keyStore ws3) of
         Inl e \<Rightarrow> (Inl e, ws3)
       | Inr ks4 \<Rightarrow>
      let ws4 = createFolder (join tk wd ''nemesis-seed'')
                  (createFolder nemesisTargetFolder (ws3\<lparr>Workspace.keyStore := ks4\<rparr>));
          input' = input\<lparr>BasicNetworkFile.nemesisSeedFolder := Some ''nemesis-seed''\<rparr>
      in (Inr nemesisTargetFolder,
          saveNetwork (removePrivateKeys tk) (removePrivateKeys tk input') ws4))))))))))))"

text \<open>\<open>NetworkGenesisService.generateNemesis\<close>.\<close>

definition generateNemesis ::
  "Toolkit \<Rightarrow> Sdk \<Rightarrow> string \<Rightarrow> GenerateNemesisParams \<Rightarrow> Workspace
     \<Rightarrow> (error + string) \<times> Workspace" where
  "generateNemesis tk sdk wd params ws =
     (case networkFile ws of
        None \<Rightarrow> (Inl InputFileMissing, ws)
      | Some input \<Rightarrow>
          if \<not> isYmlFile tk (preset input) \<or> \<not> isNewNetwork input
            then (Inl ExistingNetwork, ws)
          else if truthyString (BasicNetworkFile.nemesisSeedFolder input)
                  \<and> the (BasicNetworkFile.nemesisSeedFolder input) \<in> set (folders ws)
                  \<and> \<not> regenerate params
            then (Inl AlreadyGenerated, ws)
          else assembleNemesis tk sdk wd params input ws)"

text \<open>The entry that the balance loop appends for the mosaic of an index.\<close>

definition balanceEntry ::
  "Toolkit \<Rightarrow> MosaicPreset list \<Rightarrow> Number list \<Rightarrow> string \<Rightarrow> nat \<Rightarrow> NemesisBalance" where
  "balanceEntry tk ms bs addr i =
     \<lparr>mosaicIndex = i, NemesisBalance.address = addr,
      amount = multiply (balanceAt bs i) (exponentiate tk 10 (the (divisibility (ms ! i))))\<rparr>"


subsection \<open>Concrete topologies and a concrete toolkit\<close>

definition identityKeys :: "NetworkFile \<Rightarrow> NetworkFile" where
  "identityKeys network_file = network_file"

definition basicInput :: BasicNetworkFile where
  "basicInput =
     \<lparr>preset = ''custom-network-preset.yml'', cloneFromPreset = Some ''mainnet'',
      BasicNetworkFile.networkType = 152, isNewNetwork = True, nemesisSeedFolder = None,
      faucetBalances = None, additionalCurrencyDistributions = None, multisig = None,
      domain = ''example.org'', suffix = ''tn'', friendlyNamePattern = [],
      customNetworkPreset = None\<rparr>"

definition peerGroup :: NodeTypeInput where
  "peerGroup =
     \<lparr>NodeTypeInput.nickName = ''peer'', NodeTypeInput.nodeType = Peer, total = 2,
      NodeTypeInput.balances = [1000, 0], NodeTypeInput.restProtocol = None\<rparr>"

definition distinctInput :: NetworkInputFile where
  "distinctInput = BasicNetworkFile.extend basicInput (NetworkInputFile.fields [peerGroup])"

definition duplicateInput :: NetworkInputFile where
  "duplicateInput =
     BasicNetworkFile.extend (basicInput\<lparr>friendlyNamePattern := ''$suffix-$nickname''\<rparr>)
       (NetworkInputFile.fields [peerGroup])"

definition workspaceOf :: "NetworkInputFile \<Rightarrow> Workspace" where
  "workspaceOf input =
     \<lparr>networkInputFile = Some input, networkFile = None, presetFiles = Map.empty,
      folders = [], keyStore = demoStore\<rparr>"


definition repeatedInput :: NetworkInputFile where
  "repeatedInput =
     BasicNetworkFile.extend (basicInput\<lparr>friendlyNamePattern := ''$nickname-$nickname''\<rparr>)
       (NetworkInputFile.fields [peerGroup])"

definition startState :: ExpandState where
  "startState = \<lparr>ExpandState.nodes = [], nodeCounter = 0, counters = Map.empty\<rparr>"


definition nodeOf :: "nat \<Rightarrow> NodeMetadataType \<Rightarrow> string \<Rightarrow> NodeInformation" where
  "nodeOf n t nick =
     \<lparr>NodeInformation.number = n, NodeInformation.nickName = nick,
      NodeInformation.friendlyName = ''tn-'' @ nick @ ''-001'',
      NodeInformation.assembly = getAssembly (nodesMetadata t),
      NodeInformation.hostname = ''tn-'' @ nick @ ''-001.example.org'',
      NodeInformation.nodeType = t, NodeInformation.restProtocol = None,
      NodeInformation.balances = NodeTypeMetadata.balances (nodesMetadata t),
      addresses = None, customPreset = None\<rparr>"


definition demoToolkit :: Toolkit where
  "demoToolkit =
     \<lparr>removePrivateKeys = (\<lambda>network_file. network_file),
      isYmlFile = (\<lambda>f. drop (length f - 4) f = ''.yml''),
      join = (\<lambda>a b. if a = ''.'' then b else a @ ''/'' @ b),
      loadNetworkPreset = (\<lambda>preset_name dir files.
         case files (if dir = ''.'' then preset_name else dir @ ''/'' @ preset_name) of
           None \<Rightarrow> emptyPreset | Some p \<Rightarrow> p),
      mergePresets = (\<lambda>p custom. p),
      signVrfKeyLink = (\<lambda>main_account key nt seed. ''vrf:'' @ key),
      signAccountKeyLink = (\<lambda>main_account key nt seed. ''remote:'' @ key),
      signVotingKeyLink = (\<lambda>main_account key s e nt seed. ''voting:'' @ key),
      configAndCompose = (\<lambda>node preset_name custom params ks. Inr ks),
      exponentiate = (\<lambda>base exponent. roundDouble (base ^ nat \<lfloor>exponent\<rfloor>))\<rparr>"

definition demoParams :: GenerateNemesisParams where
  "demoParams = \<lparr>regenerate = False, GenerateNemesisParams.password = None, composeUser = None\<rparr>"

definition networkOf :: "string \<Rightarrow> bool \<Rightarrow> string option \<Rightarrow> NetworkFile" where
  "networkOf preset_name new_network seed =
     BasicNetworkFile.extend
       (basicInput\<lparr>preset := preset_name, isNewNetwork := new_network,
                   BasicNetworkFile.nemesisSeedFolder := seed\<rparr>)
       (NetworkFile.fields [nodeOf 1 HarvestingDual ''dual''])"



definition startGenesis :: GenesisState where
  "startGenesis =
     \<lparr>transactions = [], GenesisState.knownPeers = [], nemesisBalances = [],
      GenesisState.knownRestGateways = [], GenesisState.keyStore = demoStore\<rparr>"

definition mosaicOf :: "Number \<Rightarrow> MosaicPreset" where
  "mosaicOf d = \<lparr>divisibility = Some d, accounts = None, currencyDistributions = None\<rparr>"

definition largeNode :: NodeInformation where
  "largeNode = (nodeOf 1 Peer ''peer'')\<lparr>NodeInformation.balances := [9007199254740991]\<rparr>"

text \<open>
  A preset document with a generation hash seed and two mosaics, and the workspace of a
  new network before its first genesis run in the working directory \<open>dir\<close>.
\<close>

definition genesisPreset :: CustomPreset where
  "genesisPreset =
     emptyPreset
       \<lparr>nemesisGenerationHashSeed := Some ''seed'',
        nemesis := Some \<lparr>nemesisSignerPrivateKey = None,
                         mosaics = Some [mosaicOf 6, mosaicOf 0],
                         NemesisPreset.transactions = None\<rparr>\<rparr>"

definition freshWorkspace :: "string \<Rightarrow> Workspace" where
  "freshWorkspace dir =
     \<lparr>networkInputFile = None,
      networkFile = Some (networkOf ''custom-network-preset.yml'' True None),
      presetFiles = [join demoToolkit dir ''custom-network-preset.yml'' \<mapsto> genesisPreset],
      folders = [], Workspace.keyStore = demoStore\<rparr>"

section \<open>Deployment assembly of a catalog entry\<close>

text \<open>
  C8. For every catalog entry: with no assembly override the resolved assembly is
  \<open>dual\<close> when both the api and the peer flag are set, \<open>api\<close> when only the api
  flag is set and \<open>peer\<close> otherwise; with an override, the override is returned
  unchanged.
\<close>

theorem getAssembly_catalog:
  "(assembly (nodesMetadata t) = None \<longrightarrow>
      getAssembly (nodesMetadata t) =
        (if api (nodesMetadata t) \<and> peer (nodesMetadata t) then ''dual''
         else if api (nodesMetadata t) then ''api'' else ''peer''))
   \<and> (\<forall>a. assembly (nodesMetadata t) = Some a \<longrightarrow> getAssembly (nodesMetadata t) = a)"
  by (cases t) (simp_all add: getAssembly_def Assembly_services_def)

theorem getAssembly_catalog_witness:
  "assembly (nodesMetadata Api) = None
   \<and> getAssembly (nodesMetadata Api) = ''api''
   \<and> assembly (nodesMetadata HarvestingDemo) = Some ''demo''
   \<and> getAssembly (nodesMetadata HarvestingDemo) = ''demo''"
  using getAssembly_catalog [of Api] getAssembly_catalog [of HarvestingDemo]
  by simp

section \<open>Decimal rendering is injective\<close>

lemma below_ten:
  "d < 10 \<Longrightarrow>
   d = 0 \<or> d = 1 \<or> d = 2 \<or> d = 3 \<or> d = 4 \<or> d = 5 \<or> d = 6 \<or> d = 7 \<or> d = 8 \<or> d = (9::nat)"
  by arith

lemma digitVal_digitChar: "d < 10 \<Longrightarrow> digitVal (digitChar d) = d"
  using below_ten [of d] by (auto simp add: digitVal_def digitChar_def)

lemma digitChar_not_dash: "d < 10 \<Longrightarrow> CHR ''-'' \<noteq> digitChar d"
  using below_ten [of d] by (auto simp add: digitChar_def)

lemma readDecimal_String: "readDecimal (String n) = n"
proof (induction n rule: String.induct)
  case (1 n)
  show ?case
  proof (cases "n < 10")
    case True
    then show ?thesis
      by (simp add: String.simps [of n] readDecimal_def digitVal_digitChar)
  next
    case False
    with 1 have "readDecimal (String (n div 10)) = n div 10" by simp
    with False show ?thesis
      by (simp add: String.simps [of n] readDecimal_def digitVal_digitChar)
  qed
qed

lemma String_inj: "String n = String m \<Longrightarrow> n = m"
  by (metis readDecimal_String)

lemma String_no_dash: "CHR ''-'' \<notin> set (String n)"
proof (induction n rule: String.induct)
  case (1 n)
  then show ?case
    by (cases "n < 10") (simp_all add: String.simps [of n] digitChar_not_dash)
qed

lemma split_at_separator:
  "c \<notin> set a \<Longrightarrow> c \<notin> set a' \<Longrightarrow> a @ c # b = a' @ c # b' \<Longrightarrow> a = a' \<and> b = b'"
proof (induction a arbitrary: a')
  case Nil
  then show ?case by (cases a') auto
next
  case (Cons x xs)
  then show ?case by (cases a') auto
qed

lemma votingKey_inj:
  assumes "votingKey nodeName node_number s e = votingKey nodeName node_number s' e'"
  shows "s = s' \<and> e = e'"
proof -
  from assms have "String s @ CHR ''-'' # String e = String s' @ CHR ''-'' # String e'"
    by (simp add: votingKey_def)
  then have "String s = String s' \<and> String e = String e'"
    using split_at_separator [OF String_no_dash String_no_dash] by blast
  then show ?thesis by (simp add: String_inj)
qed

section \<open>Key store: account getters\<close>

lemma storedOrGenerated_Some [simp]:
  "storedOrGenerated sdk (Some sa) g nt ks = Inr (sa, ks)"
  by (simp add: storedOrGenerated_def)

lemma storedOrGenerated_None_False [simp]:
  "storedOrGenerated sdk None False nt ks = Inl AccountNotFound"
  by (simp add: storedOrGenerated_def generateNewAccountKS_def)

lemma storedOrGenerated_None_True [simp]:
  "storedOrGenerated sdk None True nt ks =
     Inr (toStored (generateNewAccount sdk (generated ks) nt), ks\<lparr>generated := generated ks + 1\<rparr>)"
  by (simp add: storedOrGenerated_def generateNewAccountKS_def)

lemma toStored_privateKey [simp]:
  "StoredAccount.privateKey (toStored a) = Account.privateKey a"
  by (simp add: toStored_def)

lemma String_small [simp]: "n < 10 \<Longrightarrow> String n = [digitChar n]"
  by (simp add: String.simps [of n])

lemma demoSdk_createFromPrivateKey:
  "createFromPrivateKey demoSdk pk nt =
     \<lparr>Account.privateKey = pk, Account.publicKey = ''P'' @ pk, Account.address = ''A'' @ pk\<rparr>"
  by (simp add: demoSdk_def)

lemma demoSdk_generateNewAccount:
  "generateNewAccount demoSdk k nt =
     \<lparr>Account.privateKey = ''K'' @ String k, Account.publicKey = ''PK'' @ String k,
      Account.address = ''AK'' @ String k\<rparr>"
  by (simp add: demoSdk_def)

lemmas demo_simps =
  demoSdk_createFromPrivateKey demoSdk_generateNewAccount founderStore_def demoStore_def
  defaultValue_def digitChar_def toStored_def

lemma getNetworkAccount_stored:
  "network (storage ks) role = Some sa \<Longrightarrow>
   getNetworkAccount sdk nt role g ks =
     (let account = createFromPrivateKey sdk (StoredAccount.privateKey sa) nt
      in Inr (account, save (ks\<lparr>storage := (storage ks)\<lparr>network :=
                 (network (storage ks))(role \<mapsto> toStored account)\<rparr>\<rparr>)))"
  by (simp add: getNetworkAccount_def Let_def)

lemma getNetworkAccount_generate:
  "network (storage ks) role = None \<Longrightarrow>
   getNetworkAccount sdk nt role True ks =
     (let account = createFromPrivateKey sdk
                      (Account.privateKey (generateNewAccount sdk (generated ks) nt)) nt
      in Inr (account, save (ks\<lparr>generated := generated ks + 1,
                 storage := (storage ks)\<lparr>network :=
                   (network (storage ks))(role \<mapsto> toStored account)\<rparr>\<rparr>)))"
  by (simp add: getNetworkAccount_def Let_def)

lemma getNodeAccount_stored:
  "storedNodeAccount (storage ks) (nodeKey nodeName node_number) keyName = Some sa \<Longrightarrow>
   getNodeAccount sdk nt keyName nodeName node_number g ks =
     (let account = createFromPrivateKey sdk (StoredAccount.privateKey sa) nt;
          key = nodeKey nodeName node_number;
          m = (case nodes (storage ks) key of None \<Rightarrow> Map.empty | Some m \<Rightarrow> m)
      in Inr (account, save (ks\<lparr>storage := (storage ks)\<lparr>nodes :=
                 (nodes (storage ks))(key \<mapsto> m(keyName \<mapsto> toStored account))\<rparr>\<rparr>)))"
  by (simp add: getNodeAccount_def Let_def storedNodeAccount_def)

lemma getNodeAccount_generate:
  "storedNodeAccount (storage ks) (nodeKey nodeName node_number) keyName = None \<Longrightarrow>
   getNodeAccount sdk nt keyName nodeName node_number True ks =
     (let account = createFromPrivateKey sdk
                      (Account.privateKey (generateNewAccount sdk (generated ks) nt)) nt;
          key = nodeKey nodeName node_number;
          m = (case nodes (storage ks) key of None \<Rightarrow> Map.empty | Some m \<Rightarrow> m)
      in Inr (account, save (ks\<lparr>generated := generated ks + 1,
                 storage := (storage ks)\<lparr>nodes :=
                   (nodes (storage ks))(key \<mapsto> m(keyName \<mapsto> toStored account))\<rparr>\<rparr>)))"
  by (simp add: getNodeAccount_def Let_def storedNodeAccount_def)

lemma getNetworkAccount_effect:
  assumes "getNetworkAccount sdk nt role g ks = Inr (a, ks')"
  shows "network (storage ks') role = Some (toStored a)
         \<and> fileWrites ks' = fileWrites ks @ [(storage ks', writtenPassword ks)]"
proof (cases "network (storage ks) role")
  case None
  with assms have "g" by (cases g) (simp_all add: getNetworkAccount_def)
  with assms None show ?thesis
    by (auto simp add: getNetworkAccount_generate Let_def save_def writtenPassword_def)
next
  case (Some sa)
  with assms show ?thesis
    by (auto simp add: getNetworkAccount_stored Let_def save_def writtenPassword_def)
qed

lemma getNodeAccount_effect:
  assumes "getNodeAccount sdk nt keyName nodeName node_number g ks = Inr (a, ks')"
  shows "storedNodeAccount (storage ks') (nodeKey nodeName node_number) keyName = Some (toStored a)
         \<and> fileWrites ks' = fileWrites ks @ [(storage ks', writtenPassword ks)]"
proof (cases "storedNodeAccount (storage ks) (nodeKey nodeName node_number) keyName")
  case None
  with assms have "g"
    by (cases g) (simp_all add: getNodeAccount_def storedNodeAccount_def Let_def)
  with assms None show ?thesis
    by (auto simp add: getNodeAccount_generate Let_def save_def writtenPassword_def
          storedNodeAccount_def)
next
  case (Some sa)
  with assms show ?thesis
    by (auto simp add: getNodeAccount_stored Let_def save_def writtenPassword_def
          storedNodeAccount_def)
qed

lemma save_storage [simp]: "storage (save ks) = storage ks"
  and save_generated [simp]: "generated (save ks) = generated ks"
  by (simp_all add: save_def)

lemma getNetworkAccount_twice:
  assumes sdk: "\<forall>pk. createFromPrivateKey sdk (Account.privateKey (createFromPrivateKey sdk pk nt)) nt
                  = createFromPrivateKey sdk pk nt"
  shows "\<exists>a ks1 ks2.
           getNetworkAccount sdk nt role True ks = Inr (a, ks1)
         \<and> network (storage ks1) role = Some (toStored a)
         \<and> getNetworkAccount sdk nt role True ks1 = Inr (a, ks2)
         \<and> storage ks2 = storage ks1 \<and> generated ks2 = generated ks1"
proof -
  obtain a ks1 where first: "getNetworkAccount sdk nt role True ks = Inr (a, ks1)"
    and a: "\<exists>pk. a = createFromPrivateKey sdk pk nt"
    by (cases "network (storage ks) role")
       (auto simp add: getNetworkAccount_generate getNetworkAccount_stored Let_def)
  from getNetworkAccount_effect [OF first]
  have stored: "network (storage ks1) role = Some (toStored a)" by simp
  from a sdk have re: "createFromPrivateKey sdk (Account.privateKey a) nt = a" by auto
  have second: "getNetworkAccount sdk nt role True ks1 =
      Inr (a, save (ks1\<lparr>storage := (storage ks1)\<lparr>network :=
                 (network (storage ks1))(role \<mapsto> toStored a)\<rparr>\<rparr>))"
    by (simp add: getNetworkAccount_stored [OF stored] Let_def re)
  have same: "(network (storage ks1))(role \<mapsto> toStored a) = network (storage ks1)"
    using stored by (simp add: map_upd_triv)
  show ?thesis
    using first stored second same by simp
qed

lemma getNodeAccount_twice:
  assumes sdk: "\<forall>pk. createFromPrivateKey sdk (Account.privateKey (createFromPrivateKey sdk pk nt)) nt
                  = createFromPrivateKey sdk pk nt"
  shows "\<exists>a ks1 ks2.
           getNodeAccount sdk nt keyName nodeName node_number True ks = Inr (a, ks1)
         \<and> storedNodeAccount (storage ks1) (nodeKey nodeName node_number) keyName = Some (toStored a)
         \<and> getNodeAccount sdk nt keyName nodeName node_number True ks1 = Inr (a, ks2)
         \<and> storage ks2 = storage ks1 \<and> generated ks2 = generated ks1"
proof -
  let ?key = "nodeKey nodeName node_number"
  obtain a ks1 where first: "getNodeAccount sdk nt keyName nodeName node_number True ks = Inr (a, ks1)"
    and a: "\<exists>pk. a = createFromPrivateKey sdk pk nt"
    by (cases "storedNodeAccount (storage ks) ?key keyName")
       (auto simp add: getNodeAccount_generate getNodeAccount_stored Let_def)
  from getNodeAccount_effect [OF first]
  have stored: "storedNodeAccount (storage ks1) ?key keyName = Some (toStored a)" by simp
  then obtain m where m: "nodes (storage ks1) ?key = Some m" "m keyName = Some (toStored a)"
    by (auto simp add: storedNodeAccount_def split: option.splits)
  from a sdk have re: "createFromPrivateKey sdk (Account.privateKey a) nt = a" by auto
  have second: "getNodeAccount sdk nt keyName nodeName node_number True ks1 =
      Inr (a, save (ks1\<lparr>storage := (storage ks1)\<lparr>nodes :=
                 (nodes (storage ks1))(?key \<mapsto> m(keyName \<mapsto> toStored a))\<rparr>\<rparr>))"
    by (simp add: getNodeAccount_stored [OF stored] Let_def re m)
  have same: "(nodes (storage ks1))(?key \<mapsto> m(keyName \<mapsto> toStored a)) = nodes (storage ks1)"
    using m by (simp add: map_upd_triv)
  show ?thesis
    using first stored second same by simp
qed

lemma demoSdk_rederives:
  "\<forall>pk. createFromPrivateKey demoSdk (Account.privateKey (createFromPrivateKey demoSdk pk nt)) nt
         = createFromPrivateKey demoSdk pk nt"
  by (simp add: demoSdk_createFromPrivateKey)

section \<open>Claims about the account getters\<close>

text \<open>
  C5. For every network role: \<open>getNetworkAccount\<close> without generation returns the
  account of the stored entry (the account the SDK creates from the stored private
  key) when one exists, and fails with \<open>AccountNotFound\<close> when none is stored; with
  generation and no stored entry it draws a fresh account from the generator, stores
  its material under the role, writes the document and returns the account.
\<close>

theorem getNetworkAccount_contract:
  "(\<forall>sa. network (storage ks) role = Some sa \<longrightarrow>
      (\<exists>ks'. getNetworkAccount sdk nt role False ks =
          Inr (createFromPrivateKey sdk (StoredAccount.privateKey sa) nt, ks')))
   \<and> (network (storage ks) role = None \<longrightarrow>
        getNetworkAccount sdk nt role False ks = Inl AccountNotFound)
   \<and> (network (storage ks) role = None \<longrightarrow>
        (\<exists>acc ks'. getNetworkAccount sdk nt role True ks = Inr (acc, ks')
           \<and> acc = createFromPrivateKey sdk
                    (Account.privateKey (generateNewAccount sdk (generated ks) nt)) nt
           \<and> generated ks' = generated ks + 1
           \<and> network (storage ks') role = Some (toStored acc)
           \<and> fileWrites ks' = fileWrites ks @ [(storage ks', writtenPassword ks)]))"
  by (simp add: getNetworkAccount_def Let_def save_def writtenPassword_def)

theorem getNetworkAccount_contract_witness:
  "network (storage founderStore) founder
      = Some \<lparr>StoredAccount.privateKey = ''F1'', StoredAccount.publicKey = ''PF1'',
              StoredAccount.address = ''AF1''\<rparr>
   \<and> (\<exists>ks'. getNetworkAccount demoSdk 152 founder False founderStore =
          Inr (\<lparr>Account.privateKey = ''F1'', Account.publicKey = ''PF1'', Account.address = ''AF1''\<rparr>, ks'))
   \<and> network (storage demoStore) founder = None
   \<and> getNetworkAccount demoSdk 152 founder False demoStore = Inl AccountNotFound
   \<and> (\<exists>ks'. getNetworkAccount demoSdk 152 founder True demoStore =
          Inr (\<lparr>Account.privateKey = ''K0'', Account.publicKey = ''PK0'', Account.address = ''AK0''\<rparr>, ks')
          \<and> generated ks' = 1
          \<and> network (storage ks') founder
               = Some \<lparr>StoredAccount.privateKey = ''K0'', StoredAccount.publicKey = ''PK0'',
                       StoredAccount.address = ''AK0''\<rparr>)"
  using getNetworkAccount_contract [of founderStore founder demoSdk 152]
        getNetworkAccount_contract [of demoStore founder demoSdk 152]
  by (auto simp add: demo_simps)


lemma getNetworkAccount_lookup:
  assumes "network (storage ks) role = Some sa"
  shows "\<exists>ks'. getNetworkAccount sdk nt role g ks
               = Inr (createFromPrivateKey sdk (StoredAccount.privateKey sa) nt, ks')
           \<and> generated ks' = generated ks
           \<and> network (storage ks') role
                = Some (toStored (createFromPrivateKey sdk (StoredAccount.privateKey sa) nt))
           \<and> (\<forall>r. r \<noteq> role \<longrightarrow> network (storage ks') r = network (storage ks) r)
           \<and> nodes (storage ks') = nodes (storage ks)
           \<and> votingFiles (storage ks') = votingFiles (storage ks)"
  by (simp add: getNetworkAccount_stored [OF assms] Let_def)

lemma getNetworkAccount_first:
  assumes "network (storage ks) role = None"
  shows "\<exists>ks'. getNetworkAccount sdk nt role True ks
               = Inr (createFromPrivateKey sdk
                        (Account.privateKey (generateNewAccount sdk (generated ks) nt)) nt, ks')
           \<and> generated ks' = generated ks + 1
           \<and> network (storage ks') role
                = Some (toStored (createFromPrivateKey sdk
                        (Account.privateKey (generateNewAccount sdk (generated ks) nt)) nt))
           \<and> (\<forall>r. r \<noteq> role \<longrightarrow> network (storage ks') r = network (storage ks) r)
           \<and> nodes (storage ks') = nodes (storage ks)
           \<and> votingFiles (storage ks') = votingFiles (storage ks)"
  by (simp add: getNetworkAccount_generate [OF assms] Let_def)

lemma node_entry_frame:
  assumes "(k, kn) \<noteq> (key, keyName)"
  shows "storedNodeAccount
           (st\<lparr>nodes := (nodes st)(key \<mapsto>
                  (case nodes st key of None \<Rightarrow> Map.empty | Some m \<Rightarrow> m)(keyName \<mapsto> v))\<rparr>) k kn
         = storedNodeAccount st k kn"
  using assms by (auto simp add: storedNodeAccount_def split: option.splits)

lemma node_entry_written:
  "storedNodeAccount
     (st\<lparr>nodes := (nodes st)(key \<mapsto>
            (case nodes st key of None \<Rightarrow> Map.empty | Some m \<Rightarrow> m)(keyName \<mapsto> v))\<rparr>) key keyName
   = Some v"
  by (simp add: storedNodeAccount_def)

lemma getNodeAccount_lookup:
  assumes "storedNodeAccount (storage ks) (nodeKey nodeName node_number) keyName = Some sa"
  shows "\<exists>ks'. getNodeAccount sdk nt keyName nodeName node_number g ks
               = Inr (createFromPrivateKey sdk (StoredAccount.privateKey sa) nt, ks')
           \<and> generated ks' = generated ks
           \<and> storedNodeAccount (storage ks') (nodeKey nodeName node_number) keyName
                = Some (toStored (createFromPrivateKey sdk (StoredAccount.privateKey sa) nt))
           \<and> (\<forall>k kn. (k, kn) \<noteq> (nodeKey nodeName node_number, keyName) \<longrightarrow>
                  storedNodeAccount (storage ks') k kn = storedNodeAccount (storage ks) k kn)
           \<and> network (storage ks') = network (storage ks)
           \<and> votingFiles (storage ks') = votingFiles (storage ks)"
  using node_entry_frame
  by (simp add: getNodeAccount_stored [OF assms] Let_def node_entry_written)

lemma getNodeAccount_first:
  assumes "storedNodeAccount (storage ks) (nodeKey nodeName node_number) keyName = None"
  shows "\<exists>ks'. getNodeAccount sdk nt keyName nodeName node_number True ks
               = Inr (createFromPrivateKey sdk
                        (Account.privateKey (generateNewAccount sdk (generated ks) nt)) nt, ks')
           \<and> generated ks' = generated ks + 1
           \<and> storedNodeAccount (storage ks') (nodeKey nodeName node_number) keyName
                = Some (toStored (createFromPrivateKey sdk
                        (Account.privateKey (generateNewAccount sdk (generated ks) nt)) nt))
           \<and> (\<forall>k kn. (k, kn) \<noteq> (nodeKey nodeName node_number, keyName) \<longrightarrow>
                  storedNodeAccount (storage ks') k kn = storedNodeAccount (storage ks) k kn)
           \<and> network (storage ks') = network (storage ks)
           \<and> votingFiles (storage ks') = votingFiles (storage ks)"
  using node_entry_frame
  by (simp add: getNodeAccount_generate [OF assms] Let_def node_entry_written)


text \<open>
  C3. For every network role and every node key (node name, node number, key role):
  \<^item> a lookup on a store that holds an entry under the key returns, whether or not
    generation is allowed, the account that the SDK creates from the stored private
    key; it draws nothing from the generator, stores the material of that account
    under the key and leaves every entry under another key as it was;
  \<^item> a first call, with generation, on a store that holds no entry under the key
    returns the account of the next draw of the generator, stores its material under
    the key and leaves every entry under another key as it was;
  \<^item> provided the SDK re-creates the same account from the private key of an account
    it created, two calls in a row with the same key return the same account, and the
    second call draws nothing and leaves the storage as it was;
  \<^item> provided the account that the SDK creates from a private key carries that private
    key, the private key of the account returned by a lookup is the stored private key,
    and it is the private key stored under the key after the lookup, so that this holds
    for every later lookup as well.
\<close>

theorem get_or_generate_idempotent:
  "(\<forall>sa. network (storage ks) role = Some sa \<longrightarrow>
      (\<exists>ks'. getNetworkAccount sdk nt role g ks
               = Inr (createFromPrivateKey sdk (StoredAccount.privateKey sa) nt, ks')
           \<and> generated ks' = generated ks
           \<and> network (storage ks') role
                = Some (toStored (createFromPrivateKey sdk (StoredAccount.privateKey sa) nt))
           \<and> (\<forall>r. r \<noteq> role \<longrightarrow> network (storage ks') r = network (storage ks) r)
           \<and> nodes (storage ks') = nodes (storage ks)
           \<and> votingFiles (storage ks') = votingFiles (storage ks)))
   \<and> (network (storage ks) role = None \<longrightarrow>
      (\<exists>ks'. getNetworkAccount sdk nt role True ks
               = Inr (createFromPrivateKey sdk
                        (Account.privateKey (generateNewAccount sdk (generated ks) nt)) nt, ks')
           \<and> generated ks' = generated ks + 1
           \<and> network (storage ks') role
                = Some (toStored (createFromPrivateKey sdk
                        (Account.privateKey (generateNewAccount sdk (generated ks) nt)) nt))
           \<and> (\<forall>r. r \<noteq> role \<longrightarrow> network (storage ks') r = network (storage ks) r)
           \<and> nodes (storage ks') = nodes (storage ks)
           \<and> votingFiles (storage ks') = votingFiles (storage ks)))
   \<and> (\<forall>sa. storedNodeAccount (storage ks) (nodeKey nodeName node_number) keyName = Some sa \<longrightarrow>
      (\<exists>ks'. getNodeAccount sdk nt keyName nodeName node_number g ks
               = Inr (createFromPrivateKey sdk (StoredAccount.privateKey sa) nt, ks')
           \<and> generated ks' = generated ks
           \<and> storedNodeAccount (storage ks') (nodeKey nodeName node_number) keyName
                = Some (toStored (createFromPrivateKey sdk (StoredAccount.privateKey sa) nt))
           \<and> (\<forall>k kn. (k, kn) \<noteq> (nodeKey nodeName node_number, keyName) \<longrightarrow>
                  storedNodeAccount (storage ks') k kn = storedNodeAccount (storage ks) k kn)
           \<and> network (storage ks') = network (storage ks)
           \<and> votingFiles (storage ks') = votingFiles (storage ks)))
   \<and> (storedNodeAccount (storage ks) (nodeKey nodeName node_number) keyName = None \<longrightarrow>
      (\<exists>ks'. getNodeAccount sdk nt keyName nodeName node_number True ks
               = Inr (createFromPrivateKey sdk
                        (Account.privateKey (generateNewAccount sdk (generated ks) nt)) nt, ks')
           \<and> generated ks' = generated ks + 1
           \<and> storedNodeAccount (storage ks') (nodeKey nodeName node_number) keyName
                = Some (toStored (createFromPrivateKey sdk
                        (Account.privateKey (generateNewAccount sdk (generated ks) nt)) nt))
           \<and> (\<forall>k kn. (k, kn) \<noteq> (nodeKey nodeName node_number, keyName) \<longrightarrow>
                  storedNodeAccount (storage ks') k kn = storedNodeAccount (storage ks) k kn)
           \<and> network (storage ks') = network (storage ks)
           \<and> votingFiles (storage ks') = votingFiles (storage ks)))
   \<and> ((\<forall>pk. createFromPrivateKey sdk (Account.privateKey (createFromPrivateKey sdk pk nt)) nt
               = createFromPrivateKey sdk pk nt) \<longrightarrow>
        (\<exists>a ks1 ks2.
           getNetworkAccount sdk nt role True ks = Inr (a, ks1)
         \<and> network (storage ks1) role = Some (toStored a)
         \<and> getNetworkAccount sdk nt role True ks1 = Inr (a, ks2)
         \<and> storage ks2 = storage ks1 \<and> generated ks2 = generated ks1)
      \<and> (\<exists>b ks1 ks2.
           getNodeAccount sdk nt keyName nodeName node_number True ks = Inr (b, ks1)
         \<and> storedNodeAccount (storage ks1) (nodeKey nodeName node_number) keyName = Some (toStored b)
         \<and> getNodeAccount sdk nt keyName nodeName node_number True ks1 = Inr (b, ks2)
         \<and> storage ks2 = storage ks1 \<and> generated ks2 = generated ks1))
   \<and> ((\<forall>pk. Account.privateKey (createFromPrivateKey sdk pk nt) = pk) \<longrightarrow>
        (\<forall>sa a ks'. network (storage ks) role = Some sa
             \<and> getNetworkAccount sdk nt role g ks = Inr (a, ks') \<longrightarrow>
           Account.privateKey a = StoredAccount.privateKey sa
           \<and> map_option StoredAccount.privateKey (network (storage ks') role)
                = Some (StoredAccount.privateKey sa))
      \<and> (\<forall>sa b ks'. storedNodeAccount (storage ks) (nodeKey nodeName node_number) keyName = Some sa
             \<and> getNodeAccount sdk nt keyName nodeName node_number g ks = Inr (b, ks') \<longrightarrow>
           Account.privateKey b = StoredAccount.privateKey sa
           \<and> map_option StoredAccount.privateKey
                (storedNodeAccount (storage ks') (nodeKey nodeName node_number) keyName)
                = Some (StoredAccount.privateKey sa)))"
proof (intro conjI allI impI)
  fix sa assume "network (storage ks) role = Some sa"
  then show "\<exists>ks'. getNetworkAccount sdk nt role g ks
               = Inr (createFromPrivateKey sdk (StoredAccount.privateKey sa) nt, ks')
           \<and> generated ks' = generated ks
           \<and> network (storage ks') role
                = Some (toStored (createFromPrivateKey sdk (StoredAccount.privateKey sa) nt))
           \<and> (\<forall>r. r \<noteq> role \<longrightarrow> network (storage ks') r = network (storage ks) r)
           \<and> nodes (storage ks') = nodes (storage ks)
           \<and> votingFiles (storage ks') = votingFiles (storage ks)"
    by (rule getNetworkAccount_lookup)
next
  assume "network (storage ks) role = None"
  then show "\<exists>ks'. getNetworkAccount sdk nt role True ks
               = Inr (createFromPrivateKey sdk
                        (Account.privateKey (generateNewAccount sdk (generated ks) nt)) nt, ks')
           \<and> generated ks' = generated ks + 1
           \<and> network (storage ks') role
                = Some (toStored (createFromPrivateKey sdk
                        (Account.privateKey (generateNewAccount sdk (generated ks) nt)) nt))
           \<and> (\<forall>r. r \<noteq> role \<longrightarrow> network (storage ks') r = network (storage ks) r)
           \<and> nodes (storage ks') = nodes (storage ks)
           \<and> votingFiles (storage ks') = votingFiles (storage ks)"
    by (rule getNetworkAccount_first)
next
  fix sa assume "storedNodeAccount (storage ks) (nodeKey nodeName node_number) keyName = Some sa"
  then show "\<exists>ks'. getNodeAccount sdk nt keyName nodeName node_number g ks
               = Inr (createFromPrivateKey sdk (StoredAccount.privateKey sa) nt, ks')
           \<and> generated ks' = generated ks
           \<and> storedNodeAccount (storage ks') (nodeKey nodeName node_number) keyName
                = Some (toStored (createFromPrivateKey sdk (StoredAccount.privateKey sa) nt))
           \<and> (\<forall>k kn. (k, kn) \<noteq> (nodeKey nodeName node_number, keyName) \<longrightarrow>
                  storedNodeAccount (storage ks') k kn = storedNodeAccount (storage ks) k kn)
           \<and> network (storage ks') = network (storage ks)
           \<and> votingFiles (storage ks') = votingFiles (storage ks)"
    by (rule getNodeAccount_lookup)
next
  assume "storedNodeAccount (storage ks) (nodeKey nodeName node_number) keyName = None"
  then show "\<exists>ks'. getNodeAccount sdk nt keyName nodeName node_number True ks
               = Inr (createFromPrivateKey sdk
                        (Account.privateKey (generateNewAccount sdk (generated ks) nt)) nt, ks')
           \<and> generated ks' = generated ks + 1
           \<and> storedNodeAccount (storage ks') (nodeKey nodeName node_number) keyName
                = Some (toStored (createFromPrivateKey sdk
                        (Account.privateKey (generateNewAccount sdk (generated ks) nt)) nt))
           \<and> (\<forall>k kn. (k, kn) \<noteq> (nodeKey nodeName node_number, keyName) \<longrightarrow>
                  storedNodeAccount (storage ks') k kn = storedNodeAccount (storage ks) k kn)
           \<and> network (storage ks') = network (storage ks)
           \<and> votingFiles (storage ks') = votingFiles (storage ks)"
    by (rule getNodeAccount_first)
next
  assume sdk: "\<forall>pk. createFromPrivateKey sdk (Account.privateKey (createFromPrivateKey sdk pk nt)) nt
               = createFromPrivateKey sdk pk nt"
  show "\<exists>a ks1 ks2.
           getNetworkAccount sdk nt role True ks = Inr (a, ks1)
         \<and> network (storage ks1) role = Some (toStored a)
         \<and> getNetworkAccount sdk nt role True ks1 = Inr (a, ks2)
         \<and> storage ks2 = storage ks1 \<and> generated ks2 = generated ks1"
    by (rule getNetworkAccount_twice [OF sdk])
next
  assume sdk: "\<forall>pk. createFromPrivateKey sdk (Account.privateKey (createFromPrivateKey sdk pk nt)) nt
               = createFromPrivateKey sdk pk nt"
  show "\<exists>b ks1 ks2.
           getNodeAccount sdk nt keyName nodeName node_number True ks = Inr (b, ks1)
         \<and> storedNodeAccount (storage ks1) (nodeKey nodeName node_number) keyName = Some (toStored b)
         \<and> getNodeAccount sdk nt keyName nodeName node_number True ks1 = Inr (b, ks2)
         \<and> storage ks2 = storage ks1 \<and> generated ks2 = generated ks1"
    by (rule getNodeAccount_twice [OF sdk])
next
  fix sa a ks'
  assume echo: "\<forall>pk. Account.privateKey (createFromPrivateKey sdk pk nt) = pk"
    and h: "network (storage ks) role = Some sa \<and> getNetworkAccount sdk nt role g ks = Inr (a, ks')"
  from h getNetworkAccount_lookup [of ks role sa sdk nt g]
  have "a = createFromPrivateKey sdk (StoredAccount.privateKey sa) nt
        \<and> network (storage ks') role = Some (toStored a)"
    by auto
  with echo show "Account.privateKey a = StoredAccount.privateKey sa"
    and "map_option StoredAccount.privateKey (network (storage ks') role)
           = Some (StoredAccount.privateKey sa)"
    by simp_all
next
  fix sa b ks'
  assume echo: "\<forall>pk. Account.privateKey (createFromPrivateKey sdk pk nt) = pk"
    and h: "storedNodeAccount (storage ks) (nodeKey nodeName node_number) keyName = Some sa
            \<and> getNodeAccount sdk nt keyName nodeName node_number g ks = Inr (b, ks')"
  from h getNodeAccount_lookup [of ks nodeName node_number keyName sa sdk nt g]
  have "b = createFromPrivateKey sdk (StoredAccount.privateKey sa) nt
        \<and> storedNodeAccount (storage ks') (nodeKey nodeName node_number) keyName
              = Some (toStored b)"
    by auto
  with echo show "Account.privateKey b = StoredAccount.privateKey sa"
    and "map_option StoredAccount.privateKey
           (storedNodeAccount (storage ks') (nodeKey nodeName node_number) keyName)
           = Some (StoredAccount.privateKey sa)"
    by simp_all
qed

lemma demo_accounts:
  "createFromPrivateKey demoSdk ''F1'' 152
     = \<lparr>Account.privateKey = ''F1'', Account.publicKey = ''PF1'', Account.address = ''AF1''\<rparr>"
  "createFromPrivateKey demoSdk (Account.privateKey (generateNewAccount demoSdk 0 152)) 152
     = \<lparr>Account.privateKey = ''K0'', Account.publicKey = ''PK0'', Account.address = ''AK0''\<rparr>"
  "createFromPrivateKey demoSdk (Account.privateKey (generateNewAccount demoSdk (Suc 0) 152)) 152
     = \<lparr>Account.privateKey = ''K1'', Account.publicKey = ''PK1'', Account.address = ''AK1''\<rparr>"
  by (simp_all add: demoSdk_createFromPrivateKey demoSdk_generateNewAccount digitChar_def)

theorem get_or_generate_idempotent_witness:
  "network (storage founderStore) founder
      = Some \<lparr>StoredAccount.privateKey = ''F1'', StoredAccount.publicKey = ''PF1'',
              StoredAccount.address = ''AF1''\<rparr>
   \<and> (\<exists>ks'. getNetworkAccount demoSdk 152 founder True founderStore
          = Inr (\<lparr>Account.privateKey = ''F1'', Account.publicKey = ''PF1'',
                  Account.address = ''AF1''\<rparr>, ks')
        \<and> generated ks' = generated founderStore)
   \<and> (\<exists>ks'. getNetworkAccount demoSdk 152 faucet True founderStore
          = Inr (\<lparr>Account.privateKey = ''K0'', Account.publicKey = ''PK0'',
                  Account.address = ''AK0''\<rparr>, ks')
        \<and> network (storage ks') founder = network (storage founderStore) founder)
   \<and> (\<exists>ks1 ks2 ks3.
          getNodeAccount demoSdk 152 Main ''node'' 1 True demoStore
            = Inr (\<lparr>Account.privateKey = ''K0'', Account.publicKey = ''PK0'',
                    Account.address = ''AK0''\<rparr>, ks1)
        \<and> getNodeAccount demoSdk 152 VRF ''node'' 1 True ks1
            = Inr (\<lparr>Account.privateKey = ''K1'', Account.publicKey = ''PK1'',
                    Account.address = ''AK1''\<rparr>, ks2)
        \<and> getNodeAccount demoSdk 152 Main ''node'' 1 True ks2
            = Inr (\<lparr>Account.privateKey = ''K0'', Account.publicKey = ''PK0'',
                    Account.address = ''AK0''\<rparr>, ks3)
        \<and> generated ks3 = 2)
   \<and> (\<forall>pk. createFromPrivateKey demoSdk (Account.privateKey (createFromPrivateKey demoSdk pk 152)) 152
         = createFromPrivateKey demoSdk pk 152)
   \<and> (\<exists>a ks1 ks2.
           getNetworkAccount demoSdk 152 faucet True demoStore = Inr (a, ks1)
         \<and> getNetworkAccount demoSdk 152 faucet True ks1 = Inr (a, ks2))
   \<and> (\<exists>b ks1 ks2.
           getNodeAccount demoSdk 152 VRF ''node'' 3 True demoStore = Inr (b, ks1)
         \<and> getNodeAccount demoSdk 152 VRF ''node'' 3 True ks1 = Inr (b, ks2))
   \<and> (\<forall>pk. Account.privateKey (createFromPrivateKey demoSdk pk 152) = pk)
   \<and> (\<exists>a ks'. getNetworkAccount demoSdk 152 founder False founderStore = Inr (a, ks')
          \<and> Account.privateKey a = ''F1''
          \<and> map_option StoredAccount.privateKey (network (storage ks') founder) = Some ''F1'')"
proof -
  let ?F1 = "\<lparr>StoredAccount.privateKey = ''F1'', StoredAccount.publicKey = ''PF1'',
              StoredAccount.address = ''AF1''\<rparr>"
  let ?key = "nodeKey ''node'' 1"
  note inst = get_or_generate_idempotent [where sdk = demoSdk and nt = 152]
  have stored: "network (storage founderStore) founder = Some ?F1"
    by (simp add: founderStore_def)
  have absent: "network (storage founderStore) faucet = None"
    by (simp add: founderStore_def defaultValue_def)
  from inst [where ks = founderStore and role = founder and g = True,
             THEN conjunct1, rule_format, OF stored]
  have lookup: "\<exists>ks'. getNetworkAccount demoSdk 152 founder True founderStore
          = Inr (\<lparr>Account.privateKey = ''F1'', Account.publicKey = ''PF1'',
                  Account.address = ''AF1''\<rparr>, ks')
        \<and> generated ks' = generated founderStore"
    by (auto simp add: demo_accounts)
  have zero: "generated founderStore = 0" "generated demoStore = 0"
    by (simp_all add: founderStore_def demoStore_def)
  from inst [where ks = founderStore and role = faucet,
             THEN conjunct2, THEN conjunct1, THEN mp, OF absent]
  have other: "\<exists>ks'. getNetworkAccount demoSdk 152 faucet True founderStore
          = Inr (\<lparr>Account.privateKey = ''K0'', Account.publicKey = ''PK0'',
                  Account.address = ''AK0''\<rparr>, ks')
        \<and> network (storage ks') founder = network (storage founderStore) founder"
    by (auto simp add: demo_accounts zero)
  have none_main: "storedNodeAccount (storage demoStore) ?key Main = None"
    and none_vrf: "storedNodeAccount (storage demoStore) ?key VRF = None"
    by (simp_all add: demoStore_def defaultValue_def storedNodeAccount_def)
  from inst [where ks = demoStore and keyName = Main and nodeName = "''node''"
               and node_number = 1,
             THEN conjunct2, THEN conjunct2, THEN conjunct2, THEN conjunct1, THEN mp,
             OF none_main]
  obtain ks1 where
    call1: "getNodeAccount demoSdk 152 Main ''node'' 1 True demoStore
              = Inr (\<lparr>Account.privateKey = ''K0'', Account.publicKey = ''PK0'',
                      Account.address = ''AK0''\<rparr>, ks1)"
    and gen1: "generated ks1 = Suc 0"
    and main1: "storedNodeAccount (storage ks1) ?key Main
                  = Some (toStored \<lparr>Account.privateKey = ''K0'', Account.publicKey = ''PK0'',
                                    Account.address = ''AK0''\<rparr>)"
    and frame1: "\<forall>k kn. (k, kn) \<noteq> (?key, Main) \<longrightarrow>
                   storedNodeAccount (storage ks1) k kn = storedNodeAccount (storage demoStore) k kn"
    by (auto simp add: demo_accounts zero)
  from frame1 none_vrf have vrf1: "storedNodeAccount (storage ks1) ?key VRF = None" by simp
  from inst [where ks = ks1 and keyName = VRF and nodeName = "''node''" and node_number = 1,
             THEN conjunct2, THEN conjunct2, THEN conjunct2, THEN conjunct1, THEN mp,
             OF vrf1]
  obtain ks2 where
    call2: "getNodeAccount demoSdk 152 VRF ''node'' 1 True ks1
              = Inr (\<lparr>Account.privateKey = ''K1'', Account.publicKey = ''PK1'',
                      Account.address = ''AK1''\<rparr>, ks2)"
    and gen2: "generated ks2 = 2"
    and frame2: "\<forall>k kn. (k, kn) \<noteq> (?key, VRF) \<longrightarrow>
                   storedNodeAccount (storage ks2) k kn = storedNodeAccount (storage ks1) k kn"
    by (auto simp add: demo_accounts gen1)
  from frame2 main1
  have main2: "storedNodeAccount (storage ks2) ?key Main
                 = Some (toStored \<lparr>Account.privateKey = ''K0'', Account.publicKey = ''PK0'',
                                   Account.address = ''AK0''\<rparr>)"
    by simp
  from inst [where ks = ks2 and keyName = Main and nodeName = "''node''" and node_number = 1
               and g = True,
             THEN conjunct2, THEN conjunct2, THEN conjunct1, rule_format, OF main2]
  obtain ks3 where
    call3: "getNodeAccount demoSdk 152 Main ''node'' 1 True ks2
              = Inr (\<lparr>Account.privateKey = ''K0'', Account.publicKey = ''PK0'',
                      Account.address = ''AK0''\<rparr>, ks3)"
    and gen3: "generated ks3 = 2"
    by (auto simp add: demoSdk_createFromPrivateKey gen2)
  from call1 call2 call3 gen3
  have sequence: "\<exists>ks1 ks2 ks3.
          getNodeAccount demoSdk 152 Main ''node'' 1 True demoStore
            = Inr (\<lparr>Account.privateKey = ''K0'', Account.publicKey = ''PK0'',
                    Account.address = ''AK0''\<rparr>, ks1)
        \<and> getNodeAccount demoSdk 152 VRF ''node'' 1 True ks1
            = Inr (\<lparr>Account.privateKey = ''K1'', Account.publicKey = ''PK1'',
                    Account.address = ''AK1''\<rparr>, ks2)
        \<and> getNodeAccount demoSdk 152 Main ''node'' 1 True ks2
            = Inr (\<lparr>Account.privateKey = ''K0'', Account.publicKey = ''PK0'',
                    Account.address = ''AK0''\<rparr>, ks3)
        \<and> generated ks3 = 2"
    by blast
  note twice = inst [where ks = demoStore and role = faucet and keyName = VRF
                       and nodeName = "''node''" and node_number = 3,
                     THEN conjunct2, THEN conjunct2, THEN conjunct2, THEN conjunct2,
                     THEN conjunct1, THEN mp, OF demoSdk_rederives]
  from twice have net: "\<exists>a ks1 ks2.
           getNetworkAccount demoSdk 152 faucet True demoStore = Inr (a, ks1)
         \<and> getNetworkAccount demoSdk 152 faucet True ks1 = Inr (a, ks2)"
    by blast
  from twice have node: "\<exists>b ks1 ks2.
           getNodeAccount demoSdk 152 VRF ''node'' 3 True demoStore = Inr (b, ks1)
         \<and> getNodeAccount demoSdk 152 VRF ''node'' 3 True ks1 = Inr (b, ks2)"
    by blast
  have echo: "\<forall>pk. Account.privateKey (createFromPrivateKey demoSdk pk 152) = pk"
    by (simp add: demoSdk_createFromPrivateKey)
  from inst [where ks = founderStore and role = founder and g = False,
             THEN conjunct1, rule_format, OF stored]
  obtain a ks' where
    found: "getNetworkAccount demoSdk 152 founder False founderStore = Inr (a, ks')"
    by blast
  from inst [where ks = founderStore and role = founder and g = False,
             THEN conjunct2, THEN conjunct2, THEN conjunct2, THEN conjunct2, THEN conjunct2,
             THEN mp, OF echo, THEN conjunct1, rule_format, OF conjI [OF stored found]]
  have "Account.privateKey a = ''F1''
        \<and> map_option StoredAccount.privateKey (network (storage ks') founder) = Some ''F1''"
    by simp
  with found
  have key: "\<exists>a ks'. getNetworkAccount demoSdk 152 founder False founderStore = Inr (a, ks')
          \<and> Account.privateKey a = ''F1''
          \<and> map_option StoredAccount.privateKey (network (storage ks') founder) = Some ''F1''"
    by blast
  from stored lookup other sequence demoSdk_rederives [of 152] net node echo key
  show ?thesis by (intro conjI)
qed

section \<open>Key store: voting key files\<close>

lemma getVotingKeyFile_found:
  assumes "votingFiles (storage ks) (votingKey nodeName node_number s e) = Some storedFile"
  shows "getVotingKeyFile sdk nt nodeName node_number s e ks =
     (let content = fromBase64 sdk (StoredVotingFile.privateFileContent storedFile);
          votingFile = readVotingFile sdk content
      in if startEpoch votingFile \<noteq> s
           then Inl (EpochMismatch StartEpoch s (startEpoch votingFile))
         else if endEpoch votingFile \<noteq> e
           then Inl (EpochMismatch EndEpoch e (endEpoch votingFile))
         else Inr (VotingKeyAccount.extend votingFile (VotingKeyFileContent.fields content), ks))"
  using assms by (simp add: getVotingKeyFile_def Let_def)

lemma getVotingKeyFile_absent:
  assumes "votingFiles (storage ks) (votingKey nodeName node_number s e) = None"
  shows "getVotingKeyFile sdk nt nodeName node_number s e ks =
     (let votingAccount = generateNewAccount sdk (generated ks) nt;
          content = createVotingFile sdk (Account.privateKey votingAccount) s e
      in Inr (VotingKeyAccount.extend
                \<lparr>VotingKeyAccount.publicKey = Account.publicKey votingAccount,
                 startEpoch = s, endEpoch = e\<rparr>
                (VotingKeyFileContent.fields content),
              save (ks\<lparr>generated := generated ks + 1,
                       storage := (storage ks)\<lparr>votingFiles :=
                         (votingFiles (storage ks))(votingKey nodeName node_number s e \<mapsto>
                            \<lparr>StoredVotingFile.publicKey = Account.publicKey votingAccount,
                             StoredVotingFile.privateFileContent = toBase64 sdk content\<rparr>)\<rparr>\<rparr>)))"
  using assms by (simp add: getVotingKeyFile_def Let_def generateNewAccountKS_def)

lemma extend_epochs [simp]:
  "startEpoch (VotingKeyAccount.extend v x) = startEpoch v"
  "endEpoch (VotingKeyAccount.extend v x) = endEpoch v"
  by (simp_all add: VotingKeyAccount.extend_def)

lemma getVotingKeyFile_returns_requested:
  assumes "getVotingKeyFile sdk nt nodeName node_number s e ks = Inr (f, ks')"
  shows "startEpoch f = s \<and> endEpoch f = e"
proof (cases "votingFiles (storage ks) (votingKey nodeName node_number s e)")
  case None
  with assms show ?thesis
    by (auto simp add: getVotingKeyFile_absent Let_def)
next
  case (Some storedFile)
  with assms show ?thesis
    by (auto simp add: getVotingKeyFile_found Let_def split: if_splits)
qed

lemma getVotingKeyFile_second_call:
  assumes first: "getVotingKeyFile sdk nt nodeName node_number s e ks = Inr (f1, ks1)"
    and codec: "votingFiles (storage ks) (votingKey nodeName node_number s e) = None \<longrightarrow>
                decodesRange sdk (Account.privateKey (generateNewAccount sdk (generated ks) nt)) s e"
  shows "\<exists>f2. getVotingKeyFile sdk nt nodeName node_number s e ks1 = Inr (f2, ks1)
               \<and> startEpoch f2 = s \<and> endEpoch f2 = e"
proof (cases "votingFiles (storage ks) (votingKey nodeName node_number s e)")
  case None
  with codec have d: "decodesRange sdk (Account.privateKey (generateNewAccount sdk (generated ks) nt)) s e"
    by simp
  let ?acc = "generateNewAccount sdk (generated ks) nt"
  let ?stored = "\<lparr>StoredVotingFile.publicKey = Account.publicKey ?acc,
                  StoredVotingFile.privateFileContent =
                    toBase64 sdk (createVotingFile sdk (Account.privateKey ?acc) s e)\<rparr>"
  from first None have "votingFiles (storage ks1) (votingKey nodeName node_number s e) = Some ?stored"
    by (auto simp add: getVotingKeyFile_absent Let_def)
  from getVotingKeyFile_found [OF this, of sdk nt] d
  show ?thesis by (simp add: Let_def decodesRange_def)
next
  case (Some storedFile)
  with first have "ks1 = ks"
    by (auto simp add: getVotingKeyFile_found Let_def split: if_splits)
  with first getVotingKeyFile_returns_requested [OF first] show ?thesis by simp
qed

lemma getVotingKeyFile_other_range:
  assumes diff: "(s', e') \<noteq> (s, e)"
    and old: "votingFiles (storage ks) (votingKey nodeName node_number s e) = Some storedFile"
    and new: "votingFiles (storage ks) (votingKey nodeName node_number s' e') = None"
  shows "\<exists>f ks'. getVotingKeyFile sdk nt nodeName node_number s' e' ks = Inr (f, ks')
           \<and> startEpoch f = s' \<and> endEpoch f = e'
           \<and> votingFiles (storage ks') (votingKey nodeName node_number s e) = Some storedFile
           \<and> votingFiles (storage ks') (votingKey nodeName node_number s' e') \<noteq> None"
proof -
  from diff have "votingKey nodeName node_number s' e' \<noteq> votingKey nodeName node_number s e"
    using votingKey_inj by blast
  with old show ?thesis
    by (simp add: getVotingKeyFile_absent [OF new] Let_def)
qed

lemma getVotingKeyFile_fails_iff:
  "(\<exists>err. getVotingKeyFile sdk nt nodeName node_number s e ks = Inl err) \<longleftrightarrow>
   (\<exists>storedFile. votingFiles (storage ks) (votingKey nodeName node_number s e) = Some storedFile
       \<and> storedRange sdk storedFile \<noteq> (s, e))"
proof (cases "votingFiles (storage ks) (votingKey nodeName node_number s e)")
  case None
  then show ?thesis by (simp add: getVotingKeyFile_absent Let_def)
next
  case (Some storedFile)
  then show ?thesis
    by (auto simp add: getVotingKeyFile_found Let_def storedRange_def)
qed

lemma getVotingKeyFile_error_kind:
  assumes "getVotingKeyFile sdk nt nodeName node_number s e ks = Inl err"
  shows "\<exists>field expected got. err = EpochMismatch field expected got"
proof (cases "votingFiles (storage ks) (votingKey nodeName node_number s e)")
  case None
  with assms show ?thesis by (simp add: getVotingKeyFile_absent Let_def)
next
  case (Some storedFile)
  with assms show ?thesis
    by (auto simp add: getVotingKeyFile_found Let_def split: if_splits)
qed

lemma String_10 [simp]: "String 10 = ''10''"
  by (simp add: String.simps [of 10] digitChar_def)

lemma demoSdk_voting:
  "createVotingFile demoSdk pk s e = replicate s 0 @ [1] @ replicate e 0"
  "readVotingFile demoSdk bs =
        \<lparr>VotingKeyAccount.publicKey = ''V'',
         startEpoch = length (takeWhile (\<lambda>w. w = 0) bs),
         endEpoch = length (dropWhile (\<lambda>w. w = 0) bs) - 1\<rparr>"
  "toBase64 demoSdk = map (\<lambda>w. if w = 0 then CHR ''A'' else CHR ''B'')"
  "fromBase64 demoSdk = map (\<lambda>c. if c = CHR ''A'' then 0 else 1)"
  by (simp_all add: demoSdk_def)

lemma demo_file_1_5:
  "createVotingFile demoSdk pk (Suc 0) 5 = [0, 1, 0, 0, 0, 0, 0]"
  by (simp add: demoSdk_voting eval_nat_numeral)

lemma first_voting_call:
  "getVotingKeyFile demoSdk 152 ''node'' 1 1 5 demoStore = Inr (votingFile1to5, votingStore)"
  by (simp add: getVotingKeyFile_def generateNewAccountKS_def Let_def save_def votingKey_def
        demo_simps demo_file_1_5 demoSdk_voting(2-4) votingStore_def votingStorage_def
        votingFile1to5_def VotingKeyAccount.extend_def VotingKeyFileContent.fields_def)

lemma demo_decodes: "decodesRange demoSdk ''K0'' 1 5"
  by (simp add: decodesRange_def demo_file_1_5 demoSdk_voting(2-4) Let_def)


text \<open>
  C2, as the code has it. For every node and every range with \<open>s \<le> e\<close>: after a call
  that returned, a second call with the same node and range returns a file whose
  decoded range is \<open>(s, e)\<close> and changes nothing (the toolkit reading back the range
  it wrote). The range is part of the key, so a call with a different range does not
  find the file stored for the first range: with nothing stored under its own key it
  generates and stores a new file for the requested range and leaves the other entry in
  place. The call fails, with \<open>EpochMismatch\<close>, exactly when the file stored under
  the requested key decodes to another range.
\<close>

theorem getVotingKeyFile_ranges:
  "(s \<le> e \<and> getVotingKeyFile sdk nt nodeName node_number s e ks = Inr (f1, ks1)
      \<and> (votingFiles (storage ks) (votingKey nodeName node_number s e) = None \<longrightarrow>
           decodesRange sdk (Account.privateKey (generateNewAccount sdk (generated ks) nt)) s e)
    \<longrightarrow> (\<exists>f2. getVotingKeyFile sdk nt nodeName node_number s e ks1 = Inr (f2, ks1)
               \<and> startEpoch f2 = s \<and> endEpoch f2 = e))
   \<and> ((s', e') \<noteq> (s, e)
       \<and> votingFiles (storage ks) (votingKey nodeName node_number s e) = Some storedFile
       \<and> votingFiles (storage ks) (votingKey nodeName node_number s' e') = None
    \<longrightarrow> (\<exists>f ks'. getVotingKeyFile sdk nt nodeName node_number s' e' ks = Inr (f, ks')
           \<and> startEpoch f = s' \<and> endEpoch f = e'
           \<and> votingFiles (storage ks') (votingKey nodeName node_number s e) = Some storedFile
           \<and> votingFiles (storage ks') (votingKey nodeName node_number s' e') \<noteq> None))
   \<and> ((\<exists>err. getVotingKeyFile sdk nt nodeName node_number s e ks = Inl err) \<longleftrightarrow>
       (\<exists>stored. votingFiles (storage ks) (votingKey nodeName node_number s e) = Some stored
           \<and> storedRange sdk stored \<noteq> (s, e)))
   \<and> (getVotingKeyFile sdk nt nodeName node_number s e ks = Inl err \<longrightarrow>
       (\<exists>field expected got. err = EpochMismatch field expected got))"
proof (intro conjI impI)
  assume "s \<le> e \<and> getVotingKeyFile sdk nt nodeName node_number s e ks = Inr (f1, ks1)
      \<and> (votingFiles (storage ks) (votingKey nodeName node_number s e) = None \<longrightarrow>
           decodesRange sdk (Account.privateKey (generateNewAccount sdk (generated ks) nt)) s e)"
  then have first: "getVotingKeyFile sdk nt nodeName node_number s e ks = Inr (f1, ks1)"
    and codec: "votingFiles (storage ks) (votingKey nodeName node_number s e) = None \<longrightarrow>
           decodesRange sdk (Account.privateKey (generateNewAccount sdk (generated ks) nt)) s e"
    by simp_all
  show "\<exists>f2. getVotingKeyFile sdk nt nodeName node_number s e ks1 = Inr (f2, ks1)
               \<and> startEpoch f2 = s \<and> endEpoch f2 = e"
    by (rule getVotingKeyFile_second_call [OF first codec])
next
  assume "(s', e') \<noteq> (s, e)
       \<and> votingFiles (storage ks) (votingKey nodeName node_number s e) = Some storedFile
       \<and> votingFiles (storage ks) (votingKey nodeName node_number s' e') = None"
  then show "\<exists>f ks'. getVotingKeyFile sdk nt nodeName node_number s' e' ks = Inr (f, ks')
           \<and> startEpoch f = s' \<and> endEpoch f = e'
           \<and> votingFiles (storage ks') (votingKey nodeName node_number s e) = Some storedFile
           \<and> votingFiles (storage ks') (votingKey nodeName node_number s' e') \<noteq> None"
    using getVotingKeyFile_other_range [of s' e' s e ks nodeName node_number storedFile sdk nt]
    by blast
next
  show "(\<exists>err. getVotingKeyFile sdk nt nodeName node_number s e ks = Inl err) \<longleftrightarrow>
       (\<exists>stored. votingFiles (storage ks) (votingKey nodeName node_number s e) = Some stored
           \<and> storedRange sdk stored \<noteq> (s, e))"
    by (rule getVotingKeyFile_fails_iff)
next
  assume "getVotingKeyFile sdk nt nodeName node_number s e ks = Inl err"
  then show "\<exists>field expected got. err = EpochMismatch field expected got"
    by (rule getVotingKeyFile_error_kind)
qed


theorem getVotingKeyFile_ranges_witness:
  "(1::nat) \<le> 5
   \<and> getVotingKeyFile demoSdk 152 ''node'' 1 1 5 demoStore = Inr (votingFile1to5, votingStore)
   \<and> decodesRange demoSdk (Account.privateKey (generateNewAccount demoSdk (generated demoStore) 152)) 1 5
   \<and> (\<exists>f2. getVotingKeyFile demoSdk 152 ''node'' 1 1 5 votingStore = Inr (f2, votingStore)
          \<and> startEpoch f2 = 1 \<and> endEpoch f2 = 5)
   \<and> votingFiles (storage votingStore) (votingKey ''node'' 1 1 5)
        = Some \<lparr>StoredVotingFile.publicKey = ''PK0'', StoredVotingFile.privateFileContent = ''ABAAAAA''\<rparr>
   \<and> votingFiles (storage votingStore) (votingKey ''node'' 1 1 10) = None
   \<and> (\<exists>f ks'. getVotingKeyFile demoSdk 152 ''node'' 1 1 10 votingStore = Inr (f, ks')
          \<and> startEpoch f = 1 \<and> endEpoch f = 10)"
proof -
  have d: "decodesRange demoSdk
             (Account.privateKey (generateNewAccount demoSdk (generated demoStore) 152)) 1 5"
    using demo_decodes by (simp add: demo_simps)
  have old: "votingFiles (storage votingStore) (votingKey ''node'' 1 1 5)
        = Some \<lparr>StoredVotingFile.publicKey = ''PK0'', StoredVotingFile.privateFileContent = ''ABAAAAA''\<rparr>"
    by (simp add: votingStore_def votingStorage_def votingKey_def digitChar_def)
  have new: "votingFiles (storage votingStore) (votingKey ''node'' 1 1 10) = None"
    by (simp add: votingStore_def votingStorage_def votingKey_def digitChar_def defaultValue_def)
  have ne: "((1::nat), (10::nat)) \<noteq> (1, 5)" by simp
  note inst = getVotingKeyFile_ranges
         [where s = 1 and e = 5 and s' = 1 and e' = 10 and sdk = demoSdk and nt = 152
            and nodeName = "''node''" and node_number = 1 and ?f1.0 = votingFile1to5
            and ?ks1.0 = votingStore
            and storedFile = "\<lparr>StoredVotingFile.publicKey = ''PK0'',
                               StoredVotingFile.privateFileContent = ''ABAAAAA''\<rparr>"]
  have again: "\<exists>f2. getVotingKeyFile demoSdk 152 ''node'' 1 1 5 votingStore = Inr (f2, votingStore)
          \<and> startEpoch f2 = 1 \<and> endEpoch f2 = 5"
    by (rule inst [where ks = demoStore, THEN conjunct1, THEN mp])
       (intro conjI impI, simp, rule first_voting_call, rule d)
  have other: "\<exists>f ks'. getVotingKeyFile demoSdk 152 ''node'' 1 1 10 votingStore = Inr (f, ks')
          \<and> startEpoch f = 1 \<and> endEpoch f = 10
          \<and> votingFiles (storage ks') (votingKey ''node'' 1 1 5)
               = Some \<lparr>StoredVotingFile.publicKey = ''PK0'',
                       StoredVotingFile.privateFileContent = ''ABAAAAA''\<rparr>
          \<and> votingFiles (storage ks') (votingKey ''node'' 1 1 10) \<noteq> None"
    by (rule inst [where ks = votingStore, THEN conjunct2, THEN conjunct1, THEN mp])
       (intro conjI, rule ne, rule old, rule new)
  from other have other': "\<exists>f ks'. getVotingKeyFile demoSdk 152 ''node'' 1 1 10 votingStore = Inr (f, ks')
          \<and> startEpoch f = 1 \<and> endEpoch f = 10"
    by blast
  show ?thesis
    by (intro conjI, simp, rule first_voting_call, rule d, rule again, rule old, rule new,
        rule other')
qed


text \<open>
  The claim as stated fails: the store holds a voting file of node 1 for the epochs
  1 to 5, and the call for the epochs 1 to 10 returns a file instead of failing.
\<close>

theorem different_range_counterexample:
  "getVotingKeyFile demoSdk 152 ''node'' 1 1 5 demoStore = Inr (votingFile1to5, votingStore)
   \<and> votingFiles (storage votingStore) (votingKey ''node'' 1 1 5)
        = Some \<lparr>StoredVotingFile.publicKey = ''PK0'', StoredVotingFile.privateFileContent = ''ABAAAAA''\<rparr>
   \<and> \<not> isl (getVotingKeyFile demoSdk 152 ''node'' 1 1 10 votingStore)"
  by (simp add: getVotingKeyFile_def generateNewAccountKS_def Let_def save_def votingKey_def
        demo_simps demo_file_1_5 demoSdk_voting(2-4) votingStore_def votingStorage_def
        votingFile1to5_def VotingKeyAccount.extend_def VotingKeyFileContent.fields_def)

section \<open>Key store: which get operations write\<close>

lemma getVotingKeyFile_found_unchanged:
  assumes "votingFiles (storage ks) (votingKey nodeName node_number s e) \<noteq> None"
    and "getVotingKeyFile sdk nt nodeName node_number s e ks = Inr (f, ks')"
  shows "ks' = ks"
proof -
  from assms(1) obtain storedFile where
    "votingFiles (storage ks) (votingKey nodeName node_number s e) = Some storedFile"
    by blast
  from getVotingKeyFile_found [OF this, of sdk nt] assms(2) show ?thesis
    by (auto simp add: Let_def split: if_splits)
qed

lemma getVotingKeyFile_generates:
  assumes "votingFiles (storage ks) (votingKey nodeName node_number s e) = None"
  shows "\<exists>f ks'. getVotingKeyFile sdk nt nodeName node_number s e ks = Inr (f, ks')
           \<and> votingFiles (storage ks') (votingKey nodeName node_number s e) \<noteq> None
           \<and> fileWrites ks' = fileWrites ks @ [(storage ks', writtenPassword ks)]"
  by (simp add: getVotingKeyFile_absent [OF assms] Let_def save_def writtenPassword_def)

text \<open>
  C9, as the code has it. Every successful call of \<open>getNetworkAccount\<close> or
  \<open>getNodeAccount\<close>, a pure lookup included, writes the re-derived entry back into the
  storage maps and writes the whole document to the storage file once more; the store
  after the call is never the store before it. The third get operation of the store,
  \<open>getVotingKeyFile\<close>, is different: a call that finds a file under the requested
  key and returns leaves the store as it was, with nothing written; the call writes,
  the new entry and the whole document, only when no file is stored under the key and
  it generates one.
\<close>

theorem account_getters_always_write:
  "(getNetworkAccount sdk nt role g ks = Inr (a, ks') \<longrightarrow>
      network (storage ks') role = Some (toStored a)
      \<and> fileWrites ks' = fileWrites ks @ [(storage ks', writtenPassword ks)]
      \<and> ks' \<noteq> ks)
   \<and> (getNodeAccount sdk nt keyName nodeName node_number g ks = Inr (b, ks'') \<longrightarrow>
      storedNodeAccount (storage ks'') (nodeKey nodeName node_number) keyName = Some (toStored b)
      \<and> fileWrites ks'' = fileWrites ks @ [(storage ks'', writtenPassword ks)]
      \<and> ks'' \<noteq> ks)
   \<and> (votingFiles (storage ks) (votingKey nodeName node_number s e) \<noteq> None
        \<and> getVotingKeyFile sdk nt nodeName node_number s e ks = Inr (f, kv) \<longrightarrow>
      kv = ks)
   \<and> (votingFiles (storage ks) (votingKey nodeName node_number s e) = None \<longrightarrow>
      (\<exists>f' kw. getVotingKeyFile sdk nt nodeName node_number s e ks = Inr (f', kw)
          \<and> votingFiles (storage kw) (votingKey nodeName node_number s e) \<noteq> None
          \<and> fileWrites kw = fileWrites ks @ [(storage kw, writtenPassword ks)]))"
proof (intro conjI impI)
  assume h: "getNetworkAccount sdk nt role g ks = Inr (a, ks')"
  from getNetworkAccount_effect [OF h]
  show "network (storage ks') role = Some (toStored a)"
    and w: "fileWrites ks' = fileWrites ks @ [(storage ks', writtenPassword ks)]"
    by simp_all
  from w show "ks' \<noteq> ks" by auto
next
  assume h: "getNodeAccount sdk nt keyName nodeName node_number g ks = Inr (b, ks'')"
  from getNodeAccount_effect [OF h]
  show "storedNodeAccount (storage ks'') (nodeKey nodeName node_number) keyName = Some (toStored b)"
    and w: "fileWrites ks'' = fileWrites ks @ [(storage ks'', writtenPassword ks)]"
    by simp_all
  from w show "ks'' \<noteq> ks" by auto
next
  assume "votingFiles (storage ks) (votingKey nodeName node_number s e) \<noteq> None
        \<and> getVotingKeyFile sdk nt nodeName node_number s e ks = Inr (f, kv)"
  then show "kv = ks"
    using getVotingKeyFile_found_unchanged by blast
next
  assume "votingFiles (storage ks) (votingKey nodeName node_number s e) = None"
  then show "\<exists>f' kw. getVotingKeyFile sdk nt nodeName node_number s e ks = Inr (f', kw)
          \<and> votingFiles (storage kw) (votingKey nodeName node_number s e) \<noteq> None
          \<and> fileWrites kw = fileWrites ks @ [(storage kw, writtenPassword ks)]"
    by (rule getVotingKeyFile_generates)
qed

lemma stored_file_lookup:
  "getVotingKeyFile demoSdk 152 ''node'' 1 1 5 votingStore = Inr (storedFile1to5, votingStore)"
  by (simp add: getVotingKeyFile_def Let_def votingKey_def demo_simps demoSdk_voting(2-4)
        votingStore_def votingStorage_def storedFile1to5_def VotingKeyAccount.extend_def
        VotingKeyFileContent.fields_def)

theorem account_getters_always_write_witness:
  "(\<exists>a ks'. getNetworkAccount demoSdk 152 founder False founderStore = Inr (a, ks')
       \<and> network (storage ks') founder = Some (toStored a)
       \<and> fileWrites ks' = fileWrites founderStore @ [(storage ks', None)]
       \<and> ks' \<noteq> founderStore)
   \<and> (\<exists>b ks''. getNodeAccount demoSdk 152 VRF ''node'' 3 True demoStore = Inr (b, ks'')
       \<and> storedNodeAccount (storage ks'') (nodeKey ''node'' 3) VRF = Some (toStored b)
       \<and> fileWrites ks'' = fileWrites demoStore @ [(storage ks'', None)]
       \<and> ks'' \<noteq> demoStore)
   \<and> votingFiles (storage votingStore) (votingKey ''node'' 1 1 5) \<noteq> None
   \<and> (\<exists>f. getVotingKeyFile demoSdk 152 ''node'' 1 1 5 votingStore = Inr (f, votingStore))
   \<and> votingFiles (storage demoStore) (votingKey ''node'' 1 1 5) = None
   \<and> (\<exists>f' kw. getVotingKeyFile demoSdk 152 ''node'' 1 1 5 demoStore = Inr (f', kw)
          \<and> votingFiles (storage kw) (votingKey ''node'' 1 1 5) \<noteq> None
          \<and> fileWrites kw = fileWrites demoStore @ [(storage kw, None)])"
proof -
  have "network (storage founderStore) founder \<noteq> None"
    by (simp add: founderStore_def)
  then obtain a ks' where
    run1: "getNetworkAccount demoSdk 152 founder False founderStore = Inr (a, ks')"
    by (auto simp add: getNetworkAccount_stored Let_def)
  have "storedNodeAccount (storage demoStore) (nodeKey ''node'' 3) VRF = None"
    by (simp add: demoStore_def defaultValue_def storedNodeAccount_def)
  then obtain b ks'' where
    run2: "getNodeAccount demoSdk 152 VRF ''node'' 3 True demoStore = Inr (b, ks'')"
    by (auto simp add: getNodeAccount_generate Let_def)
  have pw: "writtenPassword founderStore = None" "writtenPassword demoStore = None"
    by (simp_all add: writtenPassword_def founderStore_def demoStore_def)
  have held: "votingFiles (storage votingStore) (votingKey ''node'' 1 1 5) \<noteq> None"
    by (simp add: votingStore_def votingStorage_def votingKey_def digitChar_def)
  have absent: "votingFiles (storage demoStore) (votingKey ''node'' 1 1 5) = None"
    by (simp add: demoStore_def defaultValue_def)
  note inst = account_getters_always_write [where sdk = demoSdk and nt = 152]
  from inst [where role = founder and g = False and ks = founderStore and a = a and ks' = ks',
             THEN conjunct1, THEN mp, OF run1] pw run1
  have first: "\<exists>a ks'. getNetworkAccount demoSdk 152 founder False founderStore = Inr (a, ks')
       \<and> network (storage ks') founder = Some (toStored a)
       \<and> fileWrites ks' = fileWrites founderStore @ [(storage ks', None)]
       \<and> ks' \<noteq> founderStore"
    by simp
  from inst [where g = True and ks = demoStore and keyName = VRF and nodeName = "''node''"
               and node_number = 3 and b = b and ks'' = ks'',
             THEN conjunct2, THEN conjunct1, THEN mp, OF run2] pw run2
  have second: "\<exists>b ks''. getNodeAccount demoSdk 152 VRF ''node'' 3 True demoStore = Inr (b, ks'')
       \<and> storedNodeAccount (storage ks'') (nodeKey ''node'' 3) VRF = Some (toStored b)
       \<and> fileWrites ks'' = fileWrites demoStore @ [(storage ks'', None)]
       \<and> ks'' \<noteq> demoStore"
    by simp
  obtain f kv where run3: "getVotingKeyFile demoSdk 152 ''node'' 1 1 5 votingStore = Inr (f, kv)"
    using stored_file_lookup by blast
  from inst [where ks = votingStore and nodeName = "''node''" and node_number = 1
               and s = 1 and e = 5 and f = f and kv = kv,
             THEN conjunct2, THEN conjunct2, THEN conjunct1, THEN mp, OF conjI [OF held run3]]
  have "kv = votingStore" .
  with run3
  have third: "\<exists>f. getVotingKeyFile demoSdk 152 ''node'' 1 1 5 votingStore = Inr (f, votingStore)"
    by blast
  from inst [where ks = demoStore and nodeName = "''node''" and node_number = 1
               and s = 1 and e = 5,
             THEN conjunct2, THEN conjunct2, THEN conjunct2, THEN mp, OF absent] pw
  have fourth: "\<exists>f' kw. getVotingKeyFile demoSdk 152 ''node'' 1 1 5 demoStore = Inr (f', kw)
          \<and> votingFiles (storage kw) (votingKey ''node'' 1 1 5) \<noteq> None
          \<and> fileWrites kw = fileWrites demoStore @ [(storage kw, None)]"
    by simp
  from first second held third absent fourth show ?thesis by (intro conjI)
qed

text \<open>
  The claim as stated fails in its last clause: the store holds the voting file of node
  1 for the epochs 1 to 5, and the get operation for that file returns it and leaves
  the store, the list of documents written included, exactly as it was.
\<close>

theorem voting_file_lookup_counterexample:
  "votingFiles (storage votingStore) (votingKey ''node'' 1 1 5)
      = Some \<lparr>StoredVotingFile.publicKey = ''PK0'', StoredVotingFile.privateFileContent = ''ABAAAAA''\<rparr>
   \<and> getVotingKeyFile demoSdk 152 ''node'' 1 1 5 votingStore = Inr (storedFile1to5, votingStore)
   \<and> fileWrites (snd (projr (getVotingKeyFile demoSdk 152 ''node'' 1 1 5 votingStore)))
        = fileWrites votingStore"
  by (simp add: getVotingKeyFile_def Let_def votingKey_def demo_simps demoSdk_voting(2-4)
        votingStore_def votingStorage_def storedFile1to5_def VotingKeyAccount.extend_def
        VotingKeyFileContent.fields_def)

section \<open>Topology expansion\<close>

lemma baseUniq_length_le: "length (baseUniq f seen xs) \<le> length xs"
  by (induction xs arbitrary: seen) (auto intro: le_SucI)

lemma baseUniq_keeps_all:
  "length (baseUniq f seen xs) = length xs \<longleftrightarrow>
     distinct (map f xs) \<and> set (map f xs) \<inter> set seen = {}"
proof (induction xs arbitrary: seen)
  case Nil
  show ?case by simp
next
  case (Cons x xs)
  show ?case
  proof (cases "f x \<in> set seen")
    case True
    have "length (baseUniq f seen xs) \<le> length xs" by (rule baseUniq_length_le)
    with True show ?thesis by auto
  next
    case False
    with Cons [of "seen @ [f x]"] show ?thesis by auto
  qed
qed

lemma uniqBy_keeps_all: "length xs = length (uniqBy xs f) \<longleftrightarrow> distinct (map f xs)"
  using baseUniq_keeps_all [of f "[]" xs] by (auto simp add: uniqBy_def)

lemma formatFriendlyName_steps:
  "formatFriendlyName pattern s n f =
     replace ''$friendlyNumber'' f (replace ''$nickname'' n (replace ''$suffix'' s pattern))"
  by (simp add: formatFriendlyName_def)

lemma funpow_two: "(f ^^ 2) x = f (f x)"
  by (simp add: numeral_2_eq_2)

lemma zeroPad_small: "n < 10 \<Longrightarrow> zeroPad n 2 = [CHR ''0'', digitChar n]"
  by (simp add: zeroPad_def padStart_def)

lemma distinct_names:
  "map NodeInformation.friendlyName (expandedNodes distinctInput) = [''tn-peer-001'', ''tn-peer-002'']"
  by (simp add: expandedNodes_def expandType_def expandOne_def Let_def distinctInput_def
        basicInput_def peerGroup_def BasicNetworkFile.extend_def NetworkInputFile.fields_def
        formatFriendlyName_steps replace_def zeroPad_small digitChar_def funpow_two templateOf_def)

lemma distinct_hosts:
  "map NodeInformation.hostname (expandedNodes distinctInput)
     = [''tn-peer-001.example.org'', ''tn-peer-002.example.org'']"
  by (simp add: expandedNodes_def expandType_def expandOne_def Let_def distinctInput_def
        basicInput_def peerGroup_def BasicNetworkFile.extend_def NetworkInputFile.fields_def
        formatFriendlyName_steps replace_def zeroPad_small digitChar_def funpow_two templateOf_def)

lemma duplicate_names:
  "map NodeInformation.friendlyName (expandedNodes duplicateInput) = [''tn-peer'', ''tn-peer'']"
  by (simp add: expandedNodes_def expandType_def expandOne_def Let_def duplicateInput_def
        basicInput_def peerGroup_def BasicNetworkFile.extend_def NetworkInputFile.fields_def
        formatFriendlyName_steps replace_def zeroPad_small digitChar_def funpow_two templateOf_def)


text \<open>
  C4. For every input document: when the expansion produces two nodes with the same
  friendly name or two nodes with the same hostname, \<open>expandNodes\<close> fails with a
  \<open>DuplicateIdentifier\<close> error and the working directory is left as it was, no
  topology document written; when all names are distinct it returns the topology and
  writes it.
\<close>

theorem expandNodes_duplicates:
  assumes "networkInputFile ws = Some input"
  shows "(\<not> distinct (map NodeInformation.friendlyName (expandedNodes input))
          \<or> \<not> distinct (map NodeInformation.hostname (expandedNodes input))
          \<longrightarrow> (\<exists>msg. expandNodes stripKeys ws = (Inl (DuplicateIdentifier msg), ws)))
       \<and> (distinct (map NodeInformation.friendlyName (expandedNodes input))
          \<and> distinct (map NodeInformation.hostname (expandedNodes input))
          \<longrightarrow> (\<exists>output. expandNodes stripKeys ws
                            = (Inr output, ws\<lparr>networkFile := Some (stripKeys output)\<rparr>)
                 \<and> NetworkFile.nodes output = expandedNodes input))"
  using assms
  by (auto simp add: expandNodes_def Let_def uniqBy_keeps_all saveNetwork_def
        BasicNetworkFile.extend_def BasicNetworkFile.truncate_def NetworkFile.fields_def)

theorem expandNodes_duplicates_witness:
  "networkInputFile (workspaceOf duplicateInput) = Some duplicateInput
   \<and> \<not> distinct (map NodeInformation.friendlyName (expandedNodes duplicateInput))
   \<and> (\<exists>msg. expandNodes identityKeys (workspaceOf duplicateInput)
               = (Inl (DuplicateIdentifier msg), workspaceOf duplicateInput))
   \<and> networkInputFile (workspaceOf distinctInput) = Some distinctInput
   \<and> distinct (map NodeInformation.friendlyName (expandedNodes distinctInput))
   \<and> distinct (map NodeInformation.hostname (expandedNodes distinctInput))
   \<and> (\<exists>output. expandNodes identityKeys (workspaceOf distinctInput)
                  = (Inr output, (workspaceOf distinctInput)\<lparr>networkFile := Some output\<rparr>)
         \<and> NetworkFile.nodes output = expandedNodes distinctInput)"
proof -
  have in1: "networkInputFile (workspaceOf duplicateInput) = Some duplicateInput"
    and in2: "networkInputFile (workspaceOf distinctInput) = Some distinctInput"
    by (simp_all add: workspaceOf_def)
  have dup: "\<not> distinct (map NodeInformation.friendlyName (expandedNodes duplicateInput))"
    by (simp add: duplicate_names)
  have d1: "distinct (map NodeInformation.friendlyName (expandedNodes distinctInput))"
    by (simp add: distinct_names)
  have d2: "distinct (map NodeInformation.hostname (expandedNodes distinctInput))"
    by (simp add: distinct_hosts)
  from expandNodes_duplicates [OF in1, of identityKeys]
       expandNodes_duplicates [OF in2, of identityKeys]
       in1 in2 dup d1 d2
  show ?thesis by (simp add: identityKeys_def)
qed

section \<open>Formatting of friendly names\<close>

lemma splitFirst_Some:
  "splitFirst pat s = Some (b, a) \<Longrightarrow> s = b @ pat @ a"
proof (induction s arbitrary: b)
  case Nil
  then show ?case by (simp split: if_splits)
next
  case (Cons c cs)
  show ?case
  proof (cases "take (length pat) (c # cs) = pat")
    case True
    with Cons.prems have "b = []" "a = drop (length pat) (c # cs)" by simp_all
    with True show ?thesis by (metis append_Nil append_take_drop_id)
  next
    case False
    with Cons.prems obtain b' where "splitFirst pat cs = Some (b', a)" "b = c # b'"
      by (auto split: option.splits)
    with Cons.IH show ?thesis by simp
  qed
qed

lemma take_eq_length: "take (length q) xs = q \<Longrightarrow> length q \<le> length xs"
proof -
  assume "take (length q) xs = q"
  then have "length (take (length q) xs) = length q" by simp
  then show ?thesis by simp
qed

lemma take_append_within:
  "length q \<le> length xs \<Longrightarrow> take (length q) (xs @ ys) = take (length q) xs"
  by simp

lemma occurrences_append_ge:
  "occurrences q xs + occurrences q ys \<le> occurrences q (xs @ ys)"
proof (induction xs)
  case Nil
  show ?case by simp
next
  case (Cons c cs)
  have "take (length q) (c # cs) = q \<Longrightarrow> take (length q) (c # cs @ ys) = q"
  proof -
    assume h: "take (length q) (c # cs) = q"
    then have "length q \<le> length (c # cs)" by (rule take_eq_length)
    then have "take (length q) ((c # cs) @ ys) = take (length q) (c # cs)"
      by (rule take_append_within)
    with h show ?thesis by simp
  qed
  with Cons show ?case by auto
qed

lemma occurrences_no_dollar:
  assumes "isVariable q" and "CHR ''$'' \<notin> set w"
  shows "occurrences q (w @ a) = occurrences q a"
  using assms(2)
proof (induction w)
  case Nil
  show ?case by simp
next
  case (Cons c cs)
  from assms(1) obtain v where q: "q = CHR ''$'' # v"
    by (auto simp add: isVariable_def split: list.splits)
  from Cons.prems have "c \<noteq> CHR ''$''" by auto
  with q have "take (length q) (c # cs @ a) \<noteq> q" by auto
  with Cons show ?case by simp
qed

lemma occurrences_before:
  assumes "isVariable q" and "isVariable pat"
  shows "occurrences q (b @ pat @ a) = occurrences q b + occurrences q (pat @ a)"
proof (induction b)
  case Nil
  show ?case by simp
next
  case (Cons c cs)
  from assms obtain v w where q: "q = CHR ''$'' # v" "CHR ''$'' \<notin> set v"
    and p: "pat = CHR ''$'' # w"
    by (auto simp add: isVariable_def split: list.splits)
  have "take (length q) (c # cs @ pat @ a) = q \<longleftrightarrow> take (length q) (c # cs) = q"
  proof (cases "length q \<le> length (c # cs)")
    case True
    then have "take (length q) ((c # cs) @ pat @ a) = take (length q) (c # cs)"
      by (rule take_append_within)
    then show ?thesis by simp
  next
    case False
    then have long: "length (c # cs) < length q" by simp
    have "take (length q) (c # cs @ pat @ a) \<noteq> q"
    proof
      assume h: "take (length q) (c # cs @ pat @ a) = q"
      have "q ! length (c # cs) = (c # cs @ pat @ a) ! length (c # cs)"
        using long by (subst h [symmetric]) simp
      also have "\<dots> = CHR ''$''"
        using p by (simp add: nth_append)
      finally have "q ! length (c # cs) = CHR ''$''" .
      moreover have "q ! length (c # cs) \<in> set v"
        using long q by (auto simp add: nth_Cons')
      ultimately show False using q by simp
    qed
    moreover have "take (length q) (c # cs) \<noteq> q"
      using long take_eq_length [of q "c # cs"] by auto
    ultimately show ?thesis by simp
  qed
  with Cons show ?case by simp
qed
lemma occurrences_at_variable:
  assumes q: "isVariable q" and p: "isVariable pat"
    and free: "\<And>ys. take (length q) (pat @ ys) = q \<Longrightarrow> q = pat"
  shows "occurrences q (pat @ a) = (if q = pat then 1 else 0) + occurrences q a"
proof -
  from p obtain w where pat: "pat = CHR ''$'' # w" and w: "CHR ''$'' \<notin> set w"
    by (auto simp add: isVariable_def split: list.splits)
  have here: "take (length q) (pat @ a) = q \<longleftrightarrow> q = pat"
  proof
    assume "take (length q) (pat @ a) = q"
    then show "q = pat" by (rule free)
  next
    assume "q = pat"
    then show "take (length q) (pat @ a) = q" by simp
  qed
  have "occurrences q (pat @ a)
          = (if take (length q) (pat @ a) = q then 1 else 0) + occurrences q (w @ a)"
    by (simp add: pat)
  also have "occurrences q (w @ a) = occurrences q a"
    by (rule occurrences_no_dollar [OF q w])
  finally show ?thesis by (simp only: here)
qed

lemma replace_occurrences:
  assumes q: "isVariable q" and p: "isVariable pat"
    and free: "\<And>ys. take (length q) (pat @ ys) = q \<Longrightarrow> q = pat"
  shows "occurrences q s \<le> occurrences q (replace pat v s) + (if q = pat then 1 else 0)"
proof (cases "splitFirst pat s")
  case None
  then show ?thesis by (simp add: replace_def)
next
  case (Some ba)
  obtain b a where ba: "ba = (b, a)" by (cases ba)
  with Some have s: "s = b @ pat @ a" by (simp add: splitFirst_Some)
  let ?sub = "getSubstitution pat b a v"
  have "occurrences q s = occurrences q b + ((if q = pat then 1 else 0) + occurrences q a)"
    by (simp only: s occurrences_before [OF q p] occurrences_at_variable [OF q p free])
  moreover have "occurrences q b + occurrences q (?sub @ a) \<le> occurrences q (b @ ?sub @ a)"
    by (rule occurrences_append_ge)
  moreover have "occurrences q ?sub + occurrences q a \<le> occurrences q (?sub @ a)"
    by (rule occurrences_append_ge)
  moreover have "replace pat v s = b @ ?sub @ a"
    using Some ba by (simp add: replace_def)
  ultimately show ?thesis by simp
qed

lemma variables_are_variables:
  "isVariable ''$suffix''" "isVariable ''$nickname''" "isVariable ''$friendlyNumber''"
  by (simp_all add: isVariable_def)

lemma suffix_kept:
  "occurrences ''$suffix'' s \<le> occurrences ''$suffix'' (replace ''$nickname'' v s)"
  "occurrences ''$suffix'' s \<le> occurrences ''$suffix'' (replace ''$friendlyNumber'' v s)"
  using replace_occurrences [of "''$suffix''" "''$nickname''" s v]
        replace_occurrences [of "''$suffix''" "''$friendlyNumber''" s v]
  by (simp_all add: variables_are_variables)

lemma nickname_kept:
  "occurrences ''$nickname'' s \<le> occurrences ''$nickname'' (replace ''$suffix'' v s)"
  "occurrences ''$nickname'' s \<le> occurrences ''$nickname'' (replace ''$friendlyNumber'' v s)"
  using replace_occurrences [of "''$nickname''" "''$suffix''" s v]
        replace_occurrences [of "''$nickname''" "''$friendlyNumber''" s v]
  by (simp_all add: variables_are_variables)

lemma friendlyNumber_kept:
  "occurrences ''$friendlyNumber'' s \<le> occurrences ''$friendlyNumber'' (replace ''$suffix'' v s)"
  "occurrences ''$friendlyNumber'' s \<le> occurrences ''$friendlyNumber'' (replace ''$nickname'' v s)"
  using replace_occurrences [of "''$friendlyNumber''" "''$suffix''" s v]
        replace_occurrences [of "''$friendlyNumber''" "''$nickname''" s v]
  by (simp_all add: variables_are_variables)

lemma own_variable_once:
  assumes "isVariable q"
  shows "occurrences q s \<le> Suc (occurrences q (replace q v s))"
  using replace_occurrences [of q q s v] assms by simp

lemma formatFriendlyName_occurrences:
  assumes "q \<in> set templateVariables"
  shows "occurrences q pattern \<le> Suc (occurrences q (formatFriendlyName pattern s n f))"
proof -
  let ?a = "replace ''$suffix'' s pattern"
  let ?b = "replace ''$nickname'' n ?a"
  let ?c = "replace ''$friendlyNumber'' f ?b"
  from assms consider "q = ''$suffix''" | "q = ''$nickname''" | "q = ''$friendlyNumber''"
    by (auto simp add: templateVariables_def)
  then have "occurrences q pattern \<le> Suc (occurrences q ?c)"
  proof cases
    case 1
    have "occurrences q pattern \<le> Suc (occurrences q ?a)"
      unfolding 1 by (rule own_variable_once) (rule variables_are_variables)
    also have "occurrences q ?a \<le> occurrences q ?b" unfolding 1 by (rule suffix_kept)
    also have "occurrences q ?b \<le> occurrences q ?c" unfolding 1 by (rule suffix_kept)
    finally show ?thesis by simp
  next
    case 2
    have "occurrences q pattern \<le> occurrences q ?a" unfolding 2 by (rule nickname_kept)
    also have "occurrences q ?a \<le> Suc (occurrences q ?b)"
      unfolding 2 by (rule own_variable_once) (rule variables_are_variables)
    also have "occurrences q ?b \<le> occurrences q ?c" unfolding 2 by (rule nickname_kept)
    finally show ?thesis by simp
  next
    case 3
    have "occurrences q pattern \<le> occurrences q ?a" unfolding 3 by (rule friendlyNumber_kept)
    also have "occurrences q ?a \<le> occurrences q ?b" unfolding 3 by (rule friendlyNumber_kept)
    also have "occurrences q ?b \<le> Suc (occurrences q ?c)"
      unfolding 3 by (rule own_variable_once) (rule variables_are_variables)
    finally show ?thesis by simp
  qed
  then show ?thesis by (simp add: formatFriendlyName_steps)
qed

lemma expandOne_names:
  "NodeInformation.friendlyName (last (ExpandState.nodes (expandOne input nodeTypeInput st)))
     = formatFriendlyName (templateOf input) (suffix input) (NodeTypeInput.nickName nodeTypeInput)
         (friendlyNumberOf st (NodeTypeInput.nickName nodeTypeInput))"
  "NodeInformation.hostname (last (ExpandState.nodes (expandOne input nodeTypeInput st)))
     = NodeInformation.friendlyName (last (ExpandState.nodes (expandOne input nodeTypeInput st)))
         @ ''.'' @ domain input"
  by (simp_all add: expandOne_def Let_def templateOf_def friendlyNumberOf_def)


text \<open>
  C10. The friendly name of a node is the template with \<open>$suffix\<close>, \<open>$nickname\<close>
  and \<open>$friendlyNumber\<close> replaced in turn, each by one \<open>replace\<close>, which changes
  the first occurrence only. So for each of the three variables at most one occurrence
  of the template is substituted: every further occurrence is still in the friendly
  name as the literal variable text, and the hostname built from the friendly name
  keeps it as well.
\<close>

theorem friendlyName_later_occurrences:
  assumes "q \<in> set templateVariables"
    and "node = last (ExpandState.nodes (expandOne input nodeTypeInput st))"
  shows "NodeInformation.friendlyName node
           = formatFriendlyName (templateOf input) (suffix input)
               (NodeTypeInput.nickName nodeTypeInput)
               (friendlyNumberOf st (NodeTypeInput.nickName nodeTypeInput))
       \<and> occurrences q (templateOf input) \<le> Suc (occurrences q (NodeInformation.friendlyName node))
       \<and> occurrences q (NodeInformation.friendlyName node) \<le> occurrences q (NodeInformation.hostname node)"
proof -
  let ?fn = "NodeInformation.friendlyName node"
  have fn: "?fn = formatFriendlyName (templateOf input) (suffix input)
               (NodeTypeInput.nickName nodeTypeInput)
               (friendlyNumberOf st (NodeTypeInput.nickName nodeTypeInput))"
    and host: "NodeInformation.hostname node = ?fn @ ''.'' @ domain input"
    unfolding assms(2) by (rule expandOne_names)+
  have "occurrences q (templateOf input) \<le> Suc (occurrences q ?fn)"
    unfolding fn by (rule formatFriendlyName_occurrences [OF assms(1)])
  moreover have "occurrences q ?fn \<le> occurrences q (?fn @ ''.'' @ domain input)"
    using occurrences_append_ge [of q ?fn "''.'' @ domain input"] by simp
  ultimately show ?thesis using fn host by simp
qed

lemma repeated_name:
  "NodeInformation.friendlyName (last (ExpandState.nodes (expandOne repeatedInput peerGroup startState)))
     = ''peer-$nickname''"
  by (simp add: expandOne_def Let_def repeatedInput_def basicInput_def peerGroup_def
        startState_def BasicNetworkFile.extend_def NetworkInputFile.fields_def
        formatFriendlyName_steps replace_def templateOf_def)

theorem friendlyName_later_occurrences_witness:
  "''$nickname'' \<in> set templateVariables
   \<and> templateOf repeatedInput = ''$nickname-$nickname''
   \<and> NodeInformation.friendlyName
        (last (ExpandState.nodes (expandOne repeatedInput peerGroup startState))) = ''peer-$nickname''
   \<and> occurrences ''$nickname'' (templateOf repeatedInput)
        \<le> Suc (occurrences ''$nickname'' ''peer-$nickname'')"
proof -
  have v: "''$nickname'' \<in> set templateVariables" by (simp add: templateVariables_def)
  have t: "templateOf repeatedInput = ''$nickname-$nickname''"
    by (simp add: templateOf_def repeatedInput_def BasicNetworkFile.extend_def)
  have "occurrences ''$nickname'' (templateOf repeatedInput)
          \<le> Suc (occurrences ''$nickname'' (NodeInformation.friendlyName
                (last (ExpandState.nodes (expandOne repeatedInput peerGroup startState)))))"
    by (rule friendlyName_later_occurrences
               [OF v refl, of repeatedInput peerGroup startState, THEN conjunct2, THEN conjunct1])
  then have "occurrences ''$nickname'' (templateOf repeatedInput)
          \<le> Suc (occurrences ''$nickname'' ''peer-$nickname'')"
    by (simp only: repeated_name)
  with v t repeated_name show ?thesis by (intro conjI)
qed

section \<open>Genesis assembly\<close>

lemma find_truthy_promise: "List.find (\<lambda>n. truthy (isHarvestingAsync n)) ns = (case ns of [] \<Rightarrow> None | n # _ \<Rightarrow> Some n)"
  by (cases ns) (simp_all add: isHarvestingAsync_def)

lemma findCandidate_first:
  "findCandidate ns = (case ns of [] \<Rightarrow> Inl NoCandidateNode | n # _ \<Rightarrow> Inr n)"
  by (cases ns) (simp_all add: findCandidate_def find_truthy_promise)


text \<open>
  C1, evaluated on the code. The predicate handed to \<open>find\<close> is \<open>async\<close>, so \<open>find\<close>
  sees a promise, which is truthy, and returns the first node whatever its type. On the
  topology of a plain peer followed by a harvesting dual node the candidate is the
  peer, which does not harvest; and a topology of that peer alone, with no
  harvesting-capable node, still yields a candidate instead of \<open>NoCandidateNode\<close>.
\<close>

theorem findCandidate_takes_first_node:
  "findCandidate [nodeOf 1 Peer ''peer'', nodeOf 2 HarvestingDual ''dual''] = Inr (nodeOf 1 Peer ''peer'')
   \<and> \<not> NodeTypeMetadata.harvesting (nodesMetadata (NodeInformation.nodeType (nodeOf 1 Peer ''peer'')))
   \<and> NodeTypeMetadata.harvesting (nodesMetadata (NodeInformation.nodeType (nodeOf 2 HarvestingDual ''dual'')))
   \<and> findCandidate [nodeOf 1 Peer ''peer''] = Inr (nodeOf 1 Peer ''peer'')"
  by (simp add: findCandidate_first nodeOf_def)



lemmas run_simps =
  generateNemesis_def assembleNemesis_def updateNetworkPreset_def processNode_def
  getNetworkAccount_def getNodeAccount_def storedOrGenerated_def generateNewAccountKS_def
  storedNodeAccount_def nodeKey_def save_def appendBalances_def balanceAt_def
  findCandidate_first keyByPayload_def getTransactionKey_def zeroPad_def padStart_def
  deleteFolder_def createFolder_def saveNetwork_def nemesisCustomPresetOf_def
  demoToolkit_def demoParams_def networkOf_def basicInput_def nodeOf_def genesisPreset_def
  freshWorkspace_def emptyPreset_def mosaicOf_def BasicNetworkFile.extend_def
  NetworkFile.fields_def getAssembly_def rolesOf_def resolveRestUrl_def
  demo_simps Let_def

lemma first_run_in_w:
  "fst (generateNemesis demoToolkit demoSdk ''w'' demoParams (freshWorkspace ''w''))
     = Inr ''w/nemesis-target''"
  by (simp add: run_simps)


lemma after_first_run_in_w:
  "folders (snd (generateNemesis demoToolkit demoSdk ''w'' demoParams (freshWorkspace ''w'')))
     = [''w/nemesis-target'', ''w/nemesis-seed'']"
  "map_option BasicNetworkFile.nemesisSeedFolder
     (networkFile (snd (generateNemesis demoToolkit demoSdk ''w'' demoParams (freshWorkspace ''w''))))
     = Some (Some ''nemesis-seed'')"
  by (simp_all add: run_simps)

lemma second_run_in_w:
  "fst (generateNemesis demoToolkit demoSdk ''w'' demoParams
          (snd (generateNemesis demoToolkit demoSdk ''w'' demoParams (freshWorkspace ''w''))))
     = Inr ''w/nemesis-target''"
  by (simp add: run_simps)





lemma demo_join:
  "join demoToolkit ''.'' segment = segment" "join demoToolkit ''w'' segment = ''w/'' @ segment"
  by (simp_all add: demoToolkit_def)




text \<open>
  The seed-folder guard tests the recorded name as it stands, \<open>existsSync(input.nemesisSeedFolder)\<close>,
  while the seed folder is written to \<open>join(workingDir, 'nemesis-seed')\<close> and recorded
  as \<open>nemesis-seed\<close>. In a working directory other than the current one the guard
  therefore does not see the folder of an earlier run: after a first run in the
  directory \<open>w\<close> the seed folder \<open>w/nemesis-seed\<close> exists and is recorded, and a second
  run without \<open>regenerate\<close> assembles the genesis again instead of failing.
\<close>

lemma rerun_outside_current_directory:
  "fst (generateNemesis demoToolkit demoSdk ''w'' demoParams (freshWorkspace ''w''))
     = Inr ''w/nemesis-target''
   \<and> join demoToolkit ''w'' ''nemesis-seed''
        \<in> set (folders (snd (generateNemesis demoToolkit demoSdk ''w'' demoParams
                                (freshWorkspace ''w''))))
   \<and> map_option BasicNetworkFile.nemesisSeedFolder
        (networkFile (snd (generateNemesis demoToolkit demoSdk ''w'' demoParams
                             (freshWorkspace ''w''))))
        = Some (Some ''nemesis-seed'')
   \<and> \<not> regenerate demoParams
   \<and> fst (generateNemesis demoToolkit demoSdk ''w'' demoParams
            (snd (generateNemesis demoToolkit demoSdk ''w'' demoParams (freshWorkspace ''w''))))
       = Inr ''w/nemesis-target''"
  using first_run_in_w after_first_run_in_w second_run_in_w
  by (simp add: demo_join demoParams_def)

section \<open>Balance distribution\<close>

lemma bitLength_bound: "n < 2 ^ bitLength n"
proof (induction n rule: bitLength.induct)
  case (1 n)
  show ?case
  proof (cases "n = 0")
    case True
    then show ?thesis by (simp add: bitLength.simps)
  next
    case False
    with 1 have "n div 2 < 2 ^ bitLength (n div 2)" by simp
    then have "n < 2 * 2 ^ bitLength (n div 2)" by arith
    with False show ?thesis by (simp add: bitLength.simps [of n])
  qed
qed

lemma bitLength_le: "n < 2 ^ k \<Longrightarrow> bitLength n \<le> k"
proof (induction n arbitrary: k rule: bitLength.induct)
  case (1 n)
  show ?case
  proof (cases "n = 0")
    case True
    then show ?thesis by (simp add: bitLength.simps)
  next
    case False
    with "1.prems" obtain k' where k: "k = Suc k'" by (cases k) auto
    with "1.prems" have "n div 2 < 2 ^ k'" by auto
    with 1 False have "bitLength (n div 2) \<le> k'" by simp
    with False k show ?thesis by (simp add: bitLength.simps [of n])
  qed
qed

lemma exponentOf_whole:
  assumes "0 < n"
  shows "exponentOf (of_nat n) = int (bitLength n) - 53"
proof -
  have "(1::real) \<le> of_nat n" using assms by simp
  moreover have "(of_nat n :: real) < 2 ^ bitLength n"
    using bitLength_bound [of n] by (metis of_nat_less_iff of_nat_numeral of_nat_power)
  ultimately show ?thesis
    by (simp add: exponentOf_def Let_def power_int_def)
qed

lemma roundDouble_whole:
  assumes "n < 2 ^ 53"
  shows "roundDouble (of_nat n) = of_nat n"
proof (cases "n = 0")
  case True
  then show ?thesis by (simp add: roundDouble_def)
next
  case False
  define j where "j = 53 - bitLength n"
  from assms have le: "bitLength n \<le> 53" by (rule bitLength_le)
  then have e: "exponentOf (of_nat n) = - int j"
    using False by (simp add: exponentOf_whole j_def)
  have y: "(of_nat n :: real) * 2 powi (int j) = of_int (int (n * 2 ^ j))"
    by (simp add: power_int_def)
  have unscale: "(2::real) ^ j * 2 powi (- int j) = 1"
    by (simp add: power_int_minus field_simps)
  have "roundDouble (of_nat n) = of_int (int (n * 2 ^ j)) * 2 powi (- int j)"
    using False
    by (simp only: roundDouble_def Let_def abs_of_nat e minus_minus y floor_of_int) simp
  also have "\<dots> = of_nat n * ((2::real) ^ j * 2 powi (- int j))" by simp
  finally show ?thesis by (simp only: unscale mult_1_right)
qed

lemma roundDouble_minus: "roundDouble (- x) = - roundDouble x"
  by (simp add: roundDouble_def Let_def)

lemma roundDouble_int:
  assumes "\<bar>k\<bar> < 2 ^ 53"
  shows "roundDouble (of_int k) = of_int k"
proof (cases "0 \<le> k")
  case True
  then obtain n where n: "k = int n" by (metis nat_0_le)
  with assms have "n < 2 ^ 53" by simp
  from roundDouble_whole [OF this] n show ?thesis by simp
next
  case False
  then obtain n where n: "k = - int n" by (metis int_cases2 neg_le_0_iff_le of_nat_0_le_iff minus_minus nat_0_le linear)
  with assms have "n < 2 ^ 53" by simp
  from roundDouble_whole [OF this] n show ?thesis by (simp add: roundDouble_minus)
qed

lemma multiply_whole:
  assumes "\<bar>k\<bar> * 10 ^ j < 2 ^ 53"
  shows "multiply (of_int k) (10 ^ j) = of_int k * 10 ^ j"
proof -
  have "\<bar>k * 10 ^ j\<bar> < 2 ^ 53" using assms by (simp add: abs_mult)
  from roundDouble_int [OF this] show ?thesis by (simp add: multiply_def)
qed

lemmas number_simps = roundDouble_def exponentOf_def bitLength.simps Let_def

lemma balancesLoop_result:
  "balancesLoop tk ms bs addr js acc = Inr acc' \<Longrightarrow>
     acc' = acc @ map (balanceEntry tk ms bs addr) (filter (\<lambda>i. balanceAt bs i \<noteq> 0) js)
     \<and> (\<forall>i \<in> set js. balanceAt bs i \<noteq> 0 \<longrightarrow> divisibility (ms ! i) \<noteq> None)"
proof (induction js arbitrary: acc)
  case Nil
  then show ?case by simp
next
  case (Cons j js)
  show ?case
  proof (cases "balanceAt bs j = 0")
    case True
    with Cons.prems have "balancesLoop tk ms bs addr js acc = Inr acc'" by simp
    from Cons.IH [OF this] True show ?thesis by simp
  next
    case False
    with Cons.prems obtain d where d: "divisibility (ms ! j) = Some d"
      by (cases "divisibility (ms ! j)") (simp_all add: Let_def)
    with False Cons.prems
    have "balancesLoop tk ms bs addr js (acc @ [balanceEntry tk ms bs addr j]) = Inr acc'"
      by (simp add: Let_def balanceEntry_def)
    from Cons.IH [OF this] False d show ?thesis by simp
  qed
qed

lemma filter_index_upt: "filter (\<lambda>j. j = i) [0..<n] = (if i < n then [i] else [])"
  by (induction n) auto

lemma entries_of_index:
  assumes "i < n"
  shows "filter (\<lambda>e. mosaicIndex e = i) (map (balanceEntry tk ms bs addr) (filter P [0..<n]))
           = (if P i then [balanceEntry tk ms bs addr i] else [])"
proof -
  have "filter (\<lambda>e. mosaicIndex e = i) (map (balanceEntry tk ms bs addr) (filter P [0..<n]))
          = map (balanceEntry tk ms bs addr) (filter (\<lambda>j. j = i) (filter P [0..<n]))"
    by (simp add: filter_map comp_def balanceEntry_def)
  also have "filter (\<lambda>j. j = i) (filter P [0..<n]) = filter P (filter (\<lambda>j. j = i) [0..<n])"
    by (simp add: conj_commute)
  finally show ?thesis using assms by (simp add: filter_index_upt)
qed

lemma processNode_balances:
  assumes run: "processNode tk sdk nt seed ms networkPreset node st = (None, st')"
    and proc: "services (nodesMetadata (NodeInformation.nodeType node)) \<noteq> Some True"
    and main: "getNodeAccount sdk nt Main ''node'' (NodeInformation.number node) True
                 (GenesisState.keyStore st) = Inr (mainAccount, ks1)"
  shows "appendBalances tk ms (NodeInformation.balances node) (Account.address mainAccount)
           (nemesisBalances st) = Inr (nemesisBalances st')"
proof -
  from run proc main show ?thesis
    by (auto simp add: processNode_def Let_def
          split: sum.splits prod.splits if_splits option.splits)
qed


text \<open>
  C7, as the code has it. For every node that the loop processes (not a service-only
  node), with \<open>mainAccount\<close> its Main account from the key store, every mosaic index
  \<open>i\<close> and the declared balance \<open>b\<close> of the node for it: the step appends entries to
  the distribution list; when \<open>b = 0\<close> none of them is for mosaic \<open>i\<close>; when \<open>b\<close> is
  not zero the divisibility \<open>d\<close> of the mosaic is defined and exactly one of them is for
  mosaic \<open>i\<close>, with the address of the Main account and, as amount, the Number
  \<open>b * 10 ** d\<close>: the product of \<open>b\<close> and the engine's value of \<open>10 ** d\<close>, rounded
  to the nearest double. That amount is the exact \<open>b * 10^d\<close> when \<open>b\<close> is a whole
  number, \<open>d\<close> is a whole number for which the engine's \<open>10 ** d\<close> is exactly
  \<open>10^d\<close>, and the product lies below \<open>2^53\<close> in absolute value.
\<close>

theorem node_balance_distribution:
  assumes run: "processNode tk sdk nt seed ms networkPreset node st = (None, st')"
    and proc: "services (nodesMetadata (NodeInformation.nodeType node)) \<noteq> Some True"
    and main: "getNodeAccount sdk nt Main ''node'' (NodeInformation.number node) True
                 (GenesisState.keyStore st) = Inr (mainAccount, ks1)"
    and i: "i < length ms"
    and b: "b = balanceAt (NodeInformation.balances node) i"
  shows "\<exists>new. nemesisBalances st' = nemesisBalances st @ new
           \<and> (b = 0 \<longrightarrow> filter (\<lambda>e. mosaicIndex e = i) new = [])
           \<and> (b \<noteq> 0 \<longrightarrow>
                (\<exists>d. divisibility (ms ! i) = Some d
                   \<and> filter (\<lambda>e. mosaicIndex e = i) new
                       = [\<lparr>mosaicIndex = i, NemesisBalance.address = Account.address mainAccount,
                           amount = multiply b (exponentiate tk 10 d)\<rparr>]
                   \<and> multiply b (exponentiate tk 10 d) = roundDouble (b * exponentiate tk 10 d)
                   \<and> (\<forall>k j. b = of_int k \<and> d = of_nat j \<and> exponentiate tk 10 d = 10 ^ j
                             \<and> \<bar>k\<bar> * 10 ^ j < 2 ^ 53
                         \<longrightarrow> multiply b (exponentiate tk 10 d) = of_int k * 10 ^ j)))"
proof -
  let ?bs = "NodeInformation.balances node"
  let ?addr = "Account.address mainAccount"
  let ?new = "map (balanceEntry tk ms ?bs ?addr) (filter (\<lambda>j. balanceAt ?bs j \<noteq> 0) [0..<length ms])"
  from processNode_balances [OF run proc main]
  have loop: "balancesLoop tk ms ?bs ?addr [0..<length ms] (nemesisBalances st)
                = Inr (nemesisBalances st')"
    by (simp add: appendBalances_def)
  from balancesLoop_result [OF loop]
  have app: "nemesisBalances st' = nemesisBalances st @ ?new"
    and defined: "\<forall>j \<in> set [0..<length ms]. balanceAt ?bs j \<noteq> 0 \<longrightarrow> divisibility (ms ! j) \<noteq> None"
    by simp_all
  have of_i: "filter (\<lambda>e. mosaicIndex e = i) ?new
                = (if balanceAt ?bs i \<noteq> 0 then [balanceEntry tk ms ?bs ?addr i] else [])"
    by (rule entries_of_index [OF i])
  have zero: "b = 0 \<longrightarrow> filter (\<lambda>e. mosaicIndex e = i) ?new = []"
    using of_i b by simp
  have exact: "\<forall>d k j. b = of_int k \<and> d = of_nat j \<and> exponentiate tk 10 d = 10 ^ j
                   \<and> \<bar>k\<bar> * 10 ^ j < 2 ^ 53
                 \<longrightarrow> multiply b (exponentiate tk 10 d) = of_int k * 10 ^ j"
    using multiply_whole by auto
  have nonzero: "b \<noteq> 0 \<longrightarrow>
                (\<exists>d. divisibility (ms ! i) = Some d
                   \<and> filter (\<lambda>e. mosaicIndex e = i) ?new
                       = [\<lparr>mosaicIndex = i, NemesisBalance.address = ?addr,
                           amount = multiply b (exponentiate tk 10 d)\<rparr>]
                   \<and> multiply b (exponentiate tk 10 d) = roundDouble (b * exponentiate tk 10 d)
                   \<and> (\<forall>k j. b = of_int k \<and> d = of_nat j \<and> exponentiate tk 10 d = 10 ^ j
                             \<and> \<bar>k\<bar> * 10 ^ j < 2 ^ 53
                         \<longrightarrow> multiply b (exponentiate tk 10 d) = of_int k * 10 ^ j))"
  proof
    assume nz: "b \<noteq> 0"
    from i have "i \<in> set [0..<length ms]" by simp
    with defined nz b have "divisibility (ms ! i) \<noteq> None" by blast
    then obtain d where d: "divisibility (ms ! i) = Some d" by blast
    from nz b of_i d
    have "filter (\<lambda>e. mosaicIndex e = i) ?new
            = [\<lparr>mosaicIndex = i, NemesisBalance.address = ?addr,
                amount = multiply b (exponentiate tk 10 d)\<rparr>]"
      by (simp add: balanceEntry_def)
    moreover have "multiply b (exponentiate tk 10 d) = roundDouble (b * exponentiate tk 10 d)"
      by (simp add: multiply_def)
    ultimately show "\<exists>d. divisibility (ms ! i) = Some d
            \<and> filter (\<lambda>e. mosaicIndex e = i) ?new
                = [\<lparr>mosaicIndex = i, NemesisBalance.address = ?addr,
                    amount = multiply b (exponentiate tk 10 d)\<rparr>]
            \<and> multiply b (exponentiate tk 10 d) = roundDouble (b * exponentiate tk 10 d)
            \<and> (\<forall>k j. b = of_int k \<and> d = of_nat j \<and> exponentiate tk 10 d = 10 ^ j
                      \<and> \<bar>k\<bar> * 10 ^ j < 2 ^ 53
                  \<longrightarrow> multiply b (exponentiate tk 10 d) = of_int k * 10 ^ j)"
      using d exact by blast
  qed
  from app zero nonzero show ?thesis by blast
qed

lemma demo_main_account:
  "\<exists>ks1. getNodeAccount demoSdk 152 Main ''node'' 1 True demoStore
     = Inr (\<lparr>Account.privateKey = ''K0'', Account.publicKey = ''PK0'', Account.address = ''AK0''\<rparr>, ks1)"
  by (simp add: getNodeAccount_generate storedNodeAccount_def Let_def demo_simps)

lemma demo_processNode:
  "\<exists>st'. processNode demoToolkit demoSdk 152 ''seed'' [mosaicOf 6, mosaicOf 0] emptyPreset
            (nodeOf 1 Peer ''peer'') startGenesis = (None, st')"
  by (simp add: processNode_def Let_def nodeOf_def startGenesis_def appendBalances_def
        mosaicOf_def balanceAt_def getNodeAccount_def storedNodeAccount_def nodeKey_def
        save_def demo_simps split: sum.splits prod.splits)

lemma demoToolkit_exponentiate:
  "exponentiate demoToolkit base exponent = roundDouble (base ^ nat \<lfloor>exponent\<rfloor>)"
  by (simp add: demoToolkit_def)

lemma demo_exponentiate:
  "exponentiate demoToolkit 10 6 = 10 ^ 6" "exponentiate demoToolkit 10 1 = 10"
  using roundDouble_whole [of "10 ^ 6"] roundDouble_whole [of 10]
  by (simp_all add: demoToolkit_exponentiate)

theorem node_balance_distribution_witness:
  "\<exists>st' ks1.
      processNode demoToolkit demoSdk 152 ''seed'' [mosaicOf 6, mosaicOf 0] emptyPreset
        (nodeOf 1 Peer ''peer'') startGenesis = (None, st')
    \<and> getNodeAccount demoSdk 152 Main ''node'' 1 True demoStore
        = Inr (\<lparr>Account.privateKey = ''K0'', Account.publicKey = ''PK0'',
                 Account.address = ''AK0''\<rparr>, ks1)
    \<and> filter (\<lambda>e. mosaicIndex e = 0) (nemesisBalances st')
        = [\<lparr>mosaicIndex = 0, NemesisBalance.address = ''AK0'', amount = 1000000000\<rparr>]
    \<and> filter (\<lambda>e. mosaicIndex e = 1) (nemesisBalances st') = []"
proof -
  let ?node = "nodeOf 1 Peer ''peer''"
  let ?ms = "[mosaicOf 6, mosaicOf 0]"
  let ?acc = "\<lparr>Account.privateKey = ''K0'', Account.publicKey = ''PK0'', Account.address = ''AK0''\<rparr>"
  obtain st' where run:
    "processNode demoToolkit demoSdk 152 ''seed'' ?ms emptyPreset ?node startGenesis = (None, st')"
    using demo_processNode by blast
  obtain ks1 where main0:
    "getNodeAccount demoSdk 152 Main ''node'' 1 True demoStore = Inr (?acc, ks1)"
    using demo_main_account by blast
  then have main:
    "getNodeAccount demoSdk 152 Main ''node'' (NodeInformation.number ?node) True
       (GenesisState.keyStore startGenesis) = Inr (?acc, ks1)"
    by (simp add: nodeOf_def startGenesis_def)
  have proc: "services (nodesMetadata (NodeInformation.nodeType ?node)) \<noteq> Some True"
    by (simp add: nodeOf_def)
  have b0: "1000 = balanceAt (NodeInformation.balances ?node) 0"
    and b1: "0 = balanceAt (NodeInformation.balances ?node) 1"
    by (simp_all add: nodeOf_def balanceAt_def)
  have len: "0 < length ?ms" "1 < length ?ms" by simp_all
  have start: "nemesisBalances startGenesis = []" by (simp add: startGenesis_def)
  have d6: "divisibility (?ms ! 0) = Some 6" by (simp add: mosaicOf_def)
  from node_balance_distribution [OF run proc main len(1) b0]
  obtain new d where new: "nemesisBalances st' = nemesisBalances startGenesis @ new"
    and d: "divisibility (?ms ! 0) = Some d"
    and entry: "filter (\<lambda>e. mosaicIndex e = 0) new
                  = [\<lparr>mosaicIndex = 0, NemesisBalance.address = Account.address ?acc,
                      amount = multiply 1000 (exponentiate demoToolkit 10 d)\<rparr>]"
    and exact: "\<forall>k j. (1000::real) = of_int k \<and> d = of_nat j
                  \<and> exponentiate demoToolkit 10 d = 10 ^ j \<and> \<bar>k\<bar> * 10 ^ j < 2 ^ 53
                  \<longrightarrow> multiply 1000 (exponentiate demoToolkit 10 d) = of_int k * 10 ^ j"
    by fastforce
  from d d6 have six: "d = 6" by simp
  have "(1000::real) = of_int 1000 \<and> d = of_nat 6
          \<and> exponentiate demoToolkit 10 d = 10 ^ 6 \<and> \<bar>1000::int\<bar> * 10 ^ 6 < 2 ^ 53"
    by (simp add: six demo_exponentiate)
  with exact have "multiply 1000 (exponentiate demoToolkit 10 d) = of_int 1000 * 10 ^ 6"
    by blast
  then have amount: "multiply 1000 (exponentiate demoToolkit 10 d) = 1000000000" by simp
  from new entry amount
  have first: "filter (\<lambda>e. mosaicIndex e = 0) (nemesisBalances st')
        = [\<lparr>mosaicIndex = 0, NemesisBalance.address = ''AK0'', amount = 1000000000\<rparr>]"
    by (simp add: start)
  from node_balance_distribution [OF run proc main len(2) b1]
  have second: "filter (\<lambda>e. mosaicIndex e = 1) (nemesisBalances st') = []"
    by (auto simp add: start)
  from run main0 first second show ?thesis by blast
qed


lemma large_amount:
  "multiply 9007199254740991 (exponentiate demoToolkit 10 1) = 90071992547409904"
  by (simp add: demo_exponentiate multiply_def number_simps)


text \<open>
  The claim as stated fails on a large balance: for the balance \<open>2^53 - 1\<close> and a
  mosaic of divisibility 1 the amount appended is not the product.
\<close>

theorem large_balance_counterexample:
  "fst (processNode demoToolkit demoSdk 152 ''seed'' [mosaicOf 1] emptyPreset largeNode
          startGenesis) = None
   \<and> nemesisBalances (snd (processNode demoToolkit demoSdk 152 ''seed'' [mosaicOf 1]
          emptyPreset largeNode startGenesis))
       = [\<lparr>mosaicIndex = 0, NemesisBalance.address = ''AK0'', amount = 90071992547409904\<rparr>]
   \<and> (90071992547409904 :: real) \<noteq> 9007199254740991 * 10 ^ 1"
  by (simp add: processNode_def Let_def largeNode_def nodeOf_def startGenesis_def
        appendBalances_def mosaicOf_def balanceAt_def getNodeAccount_def storedNodeAccount_def
        nodeKey_def save_def demo_simps large_amount)


text \<open>
  A balance with a fraction: the declared \<open>8.2\<close> is the double nearest to it, and with
  divisibility 6 the amount is \<open>8199999.999999999\<close>, neither the product of that
  double with \<open>10^6\<close> nor \<open>8200000\<close>.
\<close>

lemma fractional_balance_amount:
  "roundDouble (41 / 5) = 2308094809027379 / 281474976710656"
  "multiply (2308094809027379 / 281474976710656) (exponentiate demoToolkit 10 6)
     = 8804682956799999 / 1073741824"
  "(8804682956799999 / 1073741824 :: real) \<noteq> 2308094809027379 / 281474976710656 * 10 ^ 6"
  "(8804682956799999 / 1073741824 :: real) \<noteq> 8200000"
  by (simp_all add: demo_exponentiate multiply_def number_simps)


end
